theory Spec2Isabelle
  imports Main "HOL-Library.Word"
begin

section \<open>Data model\<close>

text \<open>
  The project endpoints of the API package (\<^verbatim>\<open>internal/api/project.go\<close>), the route table
  (\<^verbatim>\<open>internal/api/server.go\<close>) and the model types they use.  A Go \<^verbatim>\<open>int\<close> is an
  \<^typ>\<open>int\<close> (no arithmetic is done on the identifiers), a \<^verbatim>\<open>uuid.UUID\<close> is its 128 bits,
  a \<^verbatim>\<open>time.Time\<close> is the offset of the instant from the zero value \<^verbatim>\<open>time.Time{}\<close>, and a
  pointer is an option: \<open>None\<close> is \<^verbatim>\<open>nil\<close>.
\<close>

type_synonym uuid = "128 word"
type_synonym Time = int

definition zeroTime :: Time where
  "zeroTime = 0"

record NullString =
  ns_String :: string
  ns_Valid :: bool

subsection \<open>\<^verbatim>\<open>model/user.go\<close>\<close>

type_synonym UserRole = string

definition Student :: UserRole where
  "Student = ''student''"

definition Admin :: UserRole where
  "Admin = ''admin''"

definition ProjectManager :: UserRole where
  "ProjectManager = ''project_manager''"

record User =
  usr_ID :: uuid
  usr_Role :: UserRole
  usr_ColorCode :: string
  usr_Email :: string
  usr_Username :: string
  usr_FirstName :: string
  usr_LastName :: string
  usr_Group :: string
  usr_GithubUsername :: string
  usr_HashedPassword :: string

subsection \<open>Model types declared outside the files covered here\<close>

text \<open>
  Modelled from the spec: \<^verbatim>\<open>model.ShortProject\<close> is declared outside the files covered here.  A
  project has an identity, a name, a description, a photo and a due date (section 3);
  the fields are those that \<^verbatim>\<open>makeShortProjectResponse\<close> reads.
\<close>

record ShortProject =
  prj_ID :: int
  prj_Name :: string
  prj_Description :: NullString
  prj_PhotoURL :: NullString
  prj_ActiveTo :: Time

text \<open>
  Modelled from the spec: \<^verbatim>\<open>model.Project\<close> is declared outside the files covered here.  It
  embeds \<^verbatim>\<open>ShortProject\<close> and adds the optional report and repository links of section
  3; the fields are those that \<^verbatim>\<open>makeProjectResponse\<close> reads.
\<close>

record Project = ShortProject +
  prj_ReportURL :: NullString
  prj_ReportName :: NullString
  prj_RepoURL :: NullString

text \<open>
  Modelled from the spec: \<^verbatim>\<open>model.ShortUser\<close> is declared outside the files covered here.  It is
  the short projection of a user, "id + minimal display fields": the identity and the
  profile fields of section 3 (name, group, github handle), which are also the fields
  that \<^verbatim>\<open>getProjectReport\<close> reads through a commit record.  It has no credential hash.
\<close>

record ShortUser =
  su_ID :: uuid
  su_FirstName :: string
  su_LastName :: string
  su_Group :: string
  su_GithubUsername :: string

text \<open>
  Modelled from the spec: \<^verbatim>\<open>model.ParticipantRole\<close> is declared outside the files covered here.
  The handlers convert it with \<^verbatim>\<open>string(...)\<close>, so it is a string type.
\<close>

type_synonym ParticipantRole = string

text \<open>
  Modelled from the spec: the literal of \<^verbatim>\<open>model.RoleOwner\<close> is declared outside the files
  covered here; it stands for the role Owner of section 3.
\<close>

definition RoleOwner :: ParticipantRole where
  "RoleOwner = ''owner''"

text \<open>
  Modelled from the spec: the literal of \<^verbatim>\<open>model.RoleTeamlead\<close> is declared outside the
  files covered here; it stands for the role Teamlead of section 3.
\<close>

definition RoleTeamlead :: ParticipantRole where
  "RoleTeamlead = ''teamlead''"

text \<open>
  Modelled from the spec: \<^verbatim>\<open>model.Participant\<close> is declared outside the files covered here.  It
  is the join entity of section 3; \<^verbatim>\<open>createProject\<close> reads its fields \<^verbatim>\<open>ID\<close>, \<^verbatim>\<open>Role\<close>,
  \<^verbatim>\<open>ProjectID\<close> and \<^verbatim>\<open>ShortUser\<close>.
\<close>

record Participant =
  part_ID :: int
  part_Role :: ParticipantRole
  part_ProjectID :: int
  part_ShortUser :: ShortUser

text \<open>
  Modelled from the spec: the record that \<^verbatim>\<open>GetProjectCommits\<close> returns per user is
  declared outside the files covered here, and the specification leaves the commit report
  out.  The fields are those that \<^verbatim>\<open>getProjectCommits\<close> reads: \<^verbatim>\<open>ShortUser\<close>,
  \<^verbatim>\<open>TotalCommits\<close>, \<^verbatim>\<open>FirstCommitDate\<close> and \<^verbatim>\<open>LastCommitDate\<close>.
\<close>

record CommitsInfo =
  ci_ShortUser :: ShortUser
  ci_TotalCommits :: int
  ci_FirstCommitDate :: Time
  ci_LastCommitDate :: Time

subsection \<open>Request and response types of \<^verbatim>\<open>project.go\<close>\<close>

record CreateProjectReq =
  creq_Name :: string
  creq_Description :: string
  creq_ActiveTo :: Time
  creq_PhotoURL :: string

record ShortProjectResp =
  resp_ID :: int
  resp_Name :: string
  resp_Description :: string
  resp_PhotoURL :: string
  resp_ActiveTo :: Time

record ProjectResp = ShortProjectResp +
  resp_ReportURL :: string
  resp_ReportName :: string
  resp_RepoURL :: string

text \<open>
  Modelled from the spec: \<^verbatim>\<open>ParticipantResp\<close> is declared in another file of the package.
  It is the projection of a participant (section 4.4); the fields are those that
  \<^verbatim>\<open>createProject\<close> sets.
\<close>

record ParticipantResp =
  presp_ID :: int
  presp_Role :: string
  presp_ProjectID :: int
  presp_User :: ShortUser

text \<open>
  Modelled from the spec: \<^verbatim>\<open>AddedParticipant\<close> is declared in another file of the package.
  It names the user, the project and the role of the participant to add; the fields are
  those that \<^verbatim>\<open>createProject\<close> sets.
\<close>

record AddedParticipant =
  ap_Role :: string
  ap_UserID :: uuid
  ap_ProjectID :: int

record CreateProjectResp =
  cresp_ProjectResp :: ProjectResp
  cresp_ParticipantResp :: ParticipantResp

record projectWithParticipantsResp =
  pwp_ProjectResp :: ProjectResp
  pwp_Participants :: "ParticipantResp list"

text \<open>
  The pointer fields of \<^verbatim>\<open>UpdateProjectReq\<close> are options; \<^verbatim>\<open>ID\<close> and \<^verbatim>\<open>ActiveTo\<close> are
  values (\<^verbatim>\<open>int\<close> and \<^verbatim>\<open>time.Time\<close>), as in the source.
\<close>

record UpdateProjectReq =
  ureq_ID :: int
  ureq_Name :: "string option"
  ureq_Description :: "string option"
  ureq_PhotoURL :: "string option"
  ureq_ReportURL :: "string option"
  ureq_ReportName :: "string option"
  ureq_RepoURL :: "string option"
  ureq_ActiveTo :: Time

record Metrics =
  m_Count :: int
  m_Time :: int

record commitsInfoResp =
  cir_User :: ShortUser
  cir_Metrics :: Metrics

subsection \<open>Tasks (\<^verbatim>\<open>model/task.go\<close>)\<close>

type_synonym TaskStatus = string

definition TODO :: TaskStatus where
  "TODO = ''BACKLOG''"

definition InProgress :: TaskStatus where
  "InProgress = ''IN_PROGRESS''"

definition InReview :: TaskStatus where
  "InReview = ''REVIEW''"

definition Done :: TaskStatus where
  "Done = ''DONE''"

record NullInt64 =
  ni_Int64 :: int
  ni_Valid :: bool

record ShortTask =
  tsk_ID :: int
  tsk_Name :: string
  tsk_Description :: NullString
  tsk_ParticipantID :: NullInt64
  tsk_CreatorID :: NullInt64
  tsk_Status :: TaskStatus
  tsk_Estimate :: NullString
  tsk_CreatedAt :: Time
  tsk_UpdatedAt :: Time

record Task = ShortTask +
  tsk_ProjectID :: int

text \<open>The table of known status literals: a Go \<^verbatim>\<open>map[string]struct{}\<close>, used as a set.\<close>

definition TaskStatuses :: "string \<rightharpoonup> unit" where
  "TaskStatuses = [''BACKLOG'' \<mapsto> (), ''IN_PROGRESS'' \<mapsto> (), ''REVIEW'' \<mapsto> (), ''DONE'' \<mapsto> ()]"

text \<open>
  The sources hold a second task model, with the status literals \<^verbatim>\<open>TODO\<close>,
  \<^verbatim>\<open>In progress\<close>, \<^verbatim>\<open>In review\<close>, \<^verbatim>\<open>Testing\<close> and \<^verbatim>\<open>Done\<close>.  It declares the same
  names in the same package, so only one of the two can be compiled; the handlers read
  \<^verbatim>\<open>ShortTask\<close>, which only the model above has.  This is its table.
\<close>

definition TaskStatuses_legacy :: "string \<rightharpoonup> unit" where
  "TaskStatuses_legacy =
     [''TODO'' \<mapsto> (), ''In progress'' \<mapsto> (), ''In review'' \<mapsto> (), ''Testing'' \<mapsto> (),
      ''Done'' \<mapsto> ()]"

text \<open>
  Modelled from the spec: \<^verbatim>\<open>ShortTaskResp\<close> is declared in another file of the package.
  It is the short projection of a task (section 4.4), with the fields of \<^verbatim>\<open>ShortTask\<close>.
\<close>

record ShortTaskResp =
  tr_ID :: int
  tr_Name :: string
  tr_Description :: string
  tr_ParticipantID :: int
  tr_CreatorID :: int
  tr_Status :: string
  tr_Estimate :: string
  tr_CreatedAt :: Time
  tr_UpdatedAt :: Time

text \<open>
  Modelled from the spec: \<^verbatim>\<open>makeShortTaskResponse\<close> is declared in another file of the
  package.  It copies the fields, a nullable column as the value it holds.
\<close>

definition makeShortTaskResponse :: "ShortTask \<Rightarrow> ShortTaskResp" where
  "makeShortTaskResponse t =
     \<lparr>tr_ID = tsk_ID t, tr_Name = tsk_Name t,
      tr_Description = ns_String (tsk_Description t),
      tr_ParticipantID = ni_Int64 (tsk_ParticipantID t),
      tr_CreatorID = ni_Int64 (tsk_CreatorID t),
      tr_Status = tsk_Status t,
      tr_Estimate = ns_String (tsk_Estimate t),
      tr_CreatedAt = tsk_CreatedAt t, tr_UpdatedAt = tsk_UpdatedAt t\<rparr>"

text \<open>
  Modelled from the spec: \<^verbatim>\<open>model.ProjectInfo\<close> is declared outside the files covered here.  It
  is the "project info" of section 4.4, a project with its participants and its tasks;
  \<^verbatim>\<open>sendProjectInfoResponse\<close> reads the embedded project, \<^verbatim>\<open>Participants\<close> and \<^verbatim>\<open>Tasks\<close>.
\<close>

record ProjectInfo =
  pi_Project :: Project
  pi_Participants :: "Participant list"
  pi_Tasks :: "Task list"

record projectInfoResp =
  pir_ProjectResp :: ProjectResp
  pir_Participants :: "Participant list"
  pir_Tasks :: "ShortTaskResp list"

record GetProjectsReq =
  gpr_SearchText :: string

section \<open>The HTTP boundary\<close>

text \<open>
  A request body is what \<^verbatim>\<open>json.Decoder.Decode\<close> makes of it.  \<open>EmptyBody\<close> is a body that
  is empty or has already been read: \<^verbatim>\<open>Decode\<close> returns \<^verbatim>\<open>io.EOF\<close> and stores nothing.
  \<open>NoJSON\<close> is a body that is not well-formed: \<^verbatim>\<open>Decode\<close> returns a syntax error and stores
  nothing.  \<open>JNumber\<close> is a JSON number without fraction or exponent, of any size.  \<open>JObject\<close> is a JSON object, seen through the keys that the
  project endpoints read, each with a value of the type its field has; a key holds \<open>None\<close>
  when the object does not have it or has it as \<^verbatim>\<open>null\<close> (\<^verbatim>\<open>Decode\<close> then leaves a value
  field as it is and sets a pointer field to \<^verbatim>\<open>nil\<close>).  Objects with a value of the wrong type
  and the other JSON values (strings, arrays, booleans, \<^verbatim>\<open>null\<close>) are not modelled.
\<close>

record JsonObject =
  j_id :: "int option"
  j_name :: "string option"
  j_description :: "string option"
  j_avatar :: "string option"
  j_reportUrl :: "string option"
  j_reportName :: "string option"
  j_repo :: "string option"
  j_dueDate :: "Time option"

datatype body = EmptyBody | NoJSON | JNumber int | JObject JsonObject

text \<open>
  An \<^verbatim>\<open>error\<close> value: an error of the JSON decoder or of \<^verbatim>\<open>strconv\<close>, one of the five kinds
  of section 7 of the specification, or any other error with its text.
\<close>

datatype err =
    EOF | SyntaxError | UnmarshalTypeError | InvalidUnmarshalError | NumError string
  | Unauthorized | Forbidden | InvalidInput | NotFound | Conflict
  | Err string

datatype payload =
    NullPayload
  | ErrorH err
  | ErrValue err
  | CreatedPayload CreateProjectResp
  | ProjectPayload projectWithParticipantsResp
  | ProjectsPayload "projectWithParticipantsResp list"
  | ProjectInfoPayload projectInfoResp
  | CommitsPayload "commitsInfoResp list"

text \<open>
  What a handler did with the response: \<^verbatim>\<open>c.AbortWithStatusJSON\<close>, \<^verbatim>\<open>c.JSON\<close>, a return
  that wrote nothing, or a run-time panic.
\<close>

datatype result = Abort nat payload | Reply nat payload | Silent | Panic

text \<open>
  Modelled from the spec: the keys of the gin context, \<^verbatim>\<open>domain.UserIDCtx\<close> and
  \<^verbatim>\<open>domain.ProjectIDCtx\<close>, are constants of a package that is not covered here; they are two
  different keys.
\<close>

datatype ctxkey = UserIDCtx | ProjectIDCtx

text \<open>
  A value of the context is an \<^verbatim>\<open>interface{}\<close> holding one of the types that the handlers
  store.  \<open>Token\<close> is the bearer token of the request's authorization header, \<open>Param\<close> and
  \<open>Query\<close> are \<^verbatim>\<open>c.Param\<close> and \<^verbatim>\<open>c.Query\<close>, which return the empty string for a name that
  the request does not have.
\<close>

datatype ctxval = UUIDVal uuid | IntVal int | IntPtrVal "int option"

record Context =
  Token :: string
  Body :: body
  Param :: "string \<Rightarrow> string"
  Query :: "string \<Rightarrow> string"
  Keys :: "ctxkey \<rightharpoonup> ctxval"

text \<open>The package-level variables of \<^verbatim>\<open>project.go\<close>; both start as \<^verbatim>\<open>nil\<close>.\<close>

record Globals =
  updatedProject :: "UpdateProjectReq option"
  deletedProjectID :: "int option"

definition initGlobals :: Globals where
  "initGlobals = \<lparr>updatedProject = None, deletedProjectID = None\<rparr>"

text \<open>
  The service interface of \<^verbatim>\<open>server.go\<close>: the project and participant methods that
  \<^verbatim>\<open>project.go\<close> calls, with the argument lists of the calls (\<^verbatim>\<open>AddParticipant\<close> is called
  with a boolean that the interface does not declare, and \<^verbatim>\<open>GetProjectCommits\<close> is not
  declared in the interface), and the token methods.  A method takes the state of the
  persistence layer and returns the new one; \<^verbatim>\<open>(value, nil)\<close> is \<open>Inr\<close> and a non-nil error
  is \<open>Inl\<close>.
\<close>

record 's Service =
  CreateProject :: "'s \<Rightarrow> CreateProjectReq \<Rightarrow> (err + Project) \<times> 's"
  UpdateProject :: "'s \<Rightarrow> UpdateProjectReq option \<Rightarrow> (err + Project) \<times> 's"
  DeleteProject :: "'s \<Rightarrow> int \<Rightarrow> err option \<times> 's"
  GetProjects :: "'s \<Rightarrow> GetProjectsReq \<Rightarrow> (err + Project list) \<times> 's"
  GetProjectInfo :: "'s \<Rightarrow> int \<Rightarrow> (err + ProjectInfo) \<times> 's"
  GetProjectCommits :: "'s \<Rightarrow> int \<Rightarrow> (err + CommitsInfo list) \<times> 's"
  AddParticipant :: "'s \<Rightarrow> bool \<Rightarrow> AddedParticipant \<Rightarrow> (err + Participant) \<times> 's"
  GetParticipants :: "'s \<Rightarrow> int \<Rightarrow> (err + Participant list) \<times> 's"
  GetUserIDFromToken :: "'s \<Rightarrow> string \<Rightarrow> (err + uuid) \<times> 's"
  VerifyToken :: "'s \<Rightarrow> string \<Rightarrow> UserRole list \<Rightarrow> err option \<times> 's"
  VerifySelf :: "'s \<Rightarrow> string \<Rightarrow> uuid \<Rightarrow> err option \<times> 's"
  VerifyParticipant :: "'s \<Rightarrow> uuid \<Rightarrow> int \<Rightarrow> err option \<times> 's"
  VerifyParticipantRole :: "'s \<Rightarrow> uuid \<Rightarrow> int \<Rightarrow> ParticipantRole list \<Rightarrow> err option \<times> 's"

type_synonym 's handler = "Context \<Rightarrow> Globals \<times> 's \<Rightarrow> result \<times> Context \<times> Globals \<times> 's"

section \<open>The handlers of \<^verbatim>\<open>project.go\<close>\<close>

subsection \<open>Decoding a body\<close>

text \<open>
  \<^verbatim>\<open>Decode\<close> into a fresh \<^verbatim>\<open>&CreateProjectReq{}\<close>: a key that is absent leaves the zero value
  of its field.
\<close>

definition decode_CreateProjectReq :: "body \<Rightarrow> err + CreateProjectReq" where
  "decode_CreateProjectReq b =
     (case b of
        EmptyBody \<Rightarrow> Inl EOF
      | NoJSON \<Rightarrow> Inl SyntaxError
      | JNumber n \<Rightarrow> Inl UnmarshalTypeError
      | JObject obj \<Rightarrow>
          Inr \<lparr>creq_Name = (case j_name obj of None \<Rightarrow> [] | Some v \<Rightarrow> v),
               creq_Description = (case j_description obj of None \<Rightarrow> [] | Some v \<Rightarrow> v),
               creq_ActiveTo = (case j_dueDate obj of None \<Rightarrow> zeroTime | Some t \<Rightarrow> t),
               creq_PhotoURL = (case j_avatar obj of None \<Rightarrow> [] | Some v \<Rightarrow> v)\<rparr>)"

text \<open>The zero value \<^verbatim>\<open>UpdateProjectReq{}\<close>.\<close>

definition zeroUpdateProjectReq :: UpdateProjectReq where
  "zeroUpdateProjectReq =
     \<lparr>ureq_ID = 0, ureq_Name = None, ureq_Description = None, ureq_PhotoURL = None,
      ureq_ReportURL = None, ureq_ReportName = None, ureq_RepoURL = None,
      ureq_ActiveTo = zeroTime\<rparr>"

text \<open>The values of the 64-bit \<^verbatim>\<open>int\<close>.\<close>

definition inInt64 :: "int \<Rightarrow> bool" where
  "inInt64 n = (- (2 ^ 63) \<le> n \<and> n < 2 ^ 63)"

text \<open>
  \<^verbatim>\<open>Decode\<close> into a fresh \<^verbatim>\<open>&UpdateProjectReq{}\<close>: what it leaves in the request, and the
  error it returns.  A pointer field takes the key's value or stays \<^verbatim>\<open>nil\<close>; the two value
  fields, \<^verbatim>\<open>ID\<close> and \<^verbatim>\<open>ActiveTo\<close>, take the key's value or stay at their zero value.  An
  \<^verbatim>\<open>id\<close> that does not fit the \<^verbatim>\<open>int\<close> is refused with an \<^verbatim>\<open>UnmarshalTypeError\<close>: \<^verbatim>\<open>ID\<close>
  stays zero and the other fields are decoded all the same.
\<close>

definition decode_UpdateProjectReq :: "body \<Rightarrow> UpdateProjectReq \<times> err option" where
  "decode_UpdateProjectReq b =
     (case b of
        EmptyBody \<Rightarrow> (zeroUpdateProjectReq, Some EOF)
      | NoJSON \<Rightarrow> (zeroUpdateProjectReq, Some SyntaxError)
      | JNumber n \<Rightarrow> (zeroUpdateProjectReq, Some UnmarshalTypeError)
      | JObject obj \<Rightarrow>
          (\<lparr>ureq_ID = (case j_id obj of None \<Rightarrow> 0 | Some n \<Rightarrow> if inInt64 n then n else 0),
            ureq_Name = j_name obj,
            ureq_Description = j_description obj,
            ureq_PhotoURL = j_avatar obj,
            ureq_ReportURL = j_reportUrl obj,
            ureq_ReportName = j_reportName obj,
            ureq_RepoURL = j_repo obj,
            ureq_ActiveTo = (case j_dueDate obj of None \<Rightarrow> zeroTime | Some t \<Rightarrow> t)\<rparr>,
           (case j_id obj of
              None \<Rightarrow> None
            | Some n \<Rightarrow> if inInt64 n then None else Some UnmarshalTypeError)))"

text \<open>
  \<^verbatim>\<open>Decode\<close> into an \<^verbatim>\<open>*int\<close>: the body is read first; then a \<^verbatim>\<open>nil\<close> target is refused
  with an \<^verbatim>\<open>InvalidUnmarshalError\<close>; otherwise a number that fits the \<^verbatim>\<open>int\<close> is stored in
  the pointee.
\<close>

definition decode_int_ptr :: "body \<Rightarrow> int option \<Rightarrow> err + int" where
  "decode_int_ptr b target =
     (case b of
        EmptyBody \<Rightarrow> Inl EOF
      | NoJSON \<Rightarrow> Inl SyntaxError
      | JNumber n \<Rightarrow>
          (case target of
             None \<Rightarrow> Inl InvalidUnmarshalError
           | Some old \<Rightarrow> if inInt64 n then Inr n else Inl UnmarshalTypeError)
      | JObject obj \<Rightarrow>
          (case target of None \<Rightarrow> Inl InvalidUnmarshalError | Some old \<Rightarrow> Inl UnmarshalTypeError))"

text \<open>Reading the body leaves nothing for a later \<^verbatim>\<open>Decode\<close>.\<close>

definition readBody :: "Context \<Rightarrow> Context" where
  "readBody c = c\<lparr>Body := EmptyBody\<rparr>"

subsection \<open>\<^verbatim>\<open>strconv.Atoi\<close>\<close>

definition digitVal :: "char \<Rightarrow> nat option" where
  "digitVal ch =
     (let k = (of_char ch :: nat) in if 48 \<le> k \<and> k \<le> 57 then Some (k - 48) else None)"

fun digitsVal :: "nat \<Rightarrow> string \<Rightarrow> nat option" where
  "digitsVal acc [] = Some acc"
| "digitsVal acc (ch # cs) =
     (case digitVal ch of None \<Rightarrow> None | Some d \<Rightarrow> digitsVal (10 * acc + d) cs)"

text \<open>
  An optional sign and at least one decimal digit; the value must fit the 64-bit
  \<^verbatim>\<open>int\<close>.  Every failure is a \<^verbatim>\<open>*strconv.NumError\<close> that holds the input.
\<close>

definition Atoi :: "string \<Rightarrow> err + int" where
  "Atoi s =
     (let neg = (s \<noteq> [] \<and> hd s = CHR ''-'');
          ds = (if s \<noteq> [] \<and> (hd s = CHR ''-'' \<or> hd s = CHR ''+'') then tl s else s)
      in if ds = [] then Inl (NumError s)
         else (case digitsVal 0 ds of
                 None \<Rightarrow> Inl (NumError s)
               | Some n \<Rightarrow>
                   (let v = (if neg then - int n else int n)
                    in if - (2 ^ 63) \<le> v \<and> v < 2 ^ 63 then Inr v else Inl (NumError s))))"

subsection \<open>Building the responses\<close>

definition makeProjectResponse :: "Project \<Rightarrow> ProjectResp" where
  "makeProjectResponse project =
     \<lparr>resp_ID = prj_ID project,
      resp_Name = prj_Name project,
      resp_Description = ns_String (prj_Description project),
      resp_PhotoURL = ns_String (prj_PhotoURL project),
      resp_ActiveTo = prj_ActiveTo project,
      resp_ReportURL = ns_String (prj_ReportURL project),
      resp_ReportName = ns_String (prj_ReportName project),
      resp_RepoURL = ns_String (prj_RepoURL project)\<rparr>"

definition makeProjectResponses :: "Project list \<Rightarrow> ProjectResp list" where
  "makeProjectResponses projects = map makeProjectResponse projects"

definition makeShortProjectResponse :: "ShortProject \<Rightarrow> ShortProjectResp" where
  "makeShortProjectResponse project =
     \<lparr>resp_ID = prj_ID project,
      resp_Name = prj_Name project,
      resp_Description = ns_String (prj_Description project),
      resp_PhotoURL = ns_String (prj_PhotoURL project),
      resp_ActiveTo = prj_ActiveTo project\<rparr>"

definition makeShortProjectResponses :: "ShortProject list \<Rightarrow> ShortProjectResp list" where
  "makeShortProjectResponses projects = map makeShortProjectResponse projects"

text \<open>
  Modelled from the spec: the conversion of a participant to its response is declared in
  another file of the package.  It is the projection of section 4.4, as \<^verbatim>\<open>createProject\<close>
  writes it out for the participant it has added.
\<close>

definition makeParticipantResponse :: "Participant \<Rightarrow> ParticipantResp" where
  "makeParticipantResponse participant =
     \<lparr>presp_ID = part_ID participant,
      presp_Role = part_Role participant,
      presp_ProjectID = part_ProjectID participant,
      presp_User = part_ShortUser participant\<rparr>"

text \<open>
  Modelled from the spec: \<^verbatim>\<open>makeParticipantResponses\<close> is declared in another file of the
  package.  It converts each participant, in order.
\<close>

definition makeParticipantResponses :: "Participant list \<Rightarrow> ParticipantResp list" where
  "makeParticipantResponses participants = map makeParticipantResponse participants"

subsection \<open>The handlers\<close>

text \<open>
  \<^verbatim>\<open>createProject\<close>.  The arguments of \<^verbatim>\<open>AddParticipant\<close> are evaluated after
  \<^verbatim>\<open>CreateProject\<close> has returned: \<^verbatim>\<open>c.MustGet(...).(uuid.UUID)\<close> panics when the key is not
  set or holds another type.
\<close>

definition createProject :: "'s Service \<Rightarrow> 's handler" where
  "createProject svc c gs =
     (case gs of (g, s) \<Rightarrow>
        (case decode_CreateProjectReq (Body c) of
           Inl e \<Rightarrow> (Abort 400 (ErrorH e), readBody c, g, s)
         | Inr projectReq \<Rightarrow>
             (case CreateProject svc s projectReq of
                (Inl e, s1) \<Rightarrow> (Abort 400 (ErrorH e), readBody c, g, s1)
              | (Inr project, s1) \<Rightarrow>
                  (case Keys c UserIDCtx of
                     Some (UUIDVal uid) \<Rightarrow>
                       (case AddParticipant svc s1 True
                               \<lparr>ap_Role = RoleOwner, ap_UserID = uid,
                                ap_ProjectID = prj_ID project\<rparr> of
                          (Inl e, s2) \<Rightarrow> (Abort 400 (ErrorH e), readBody c, g, s2)
                        | (Inr participant, s2) \<Rightarrow>
                            (Reply 201
                               (CreatedPayload
                                  \<lparr>cresp_ProjectResp = makeProjectResponse project,
                                   cresp_ParticipantResp =
                                     \<lparr>presp_ID = part_ID participant,
                                      presp_Role = part_Role participant,
                                      presp_ProjectID = part_ProjectID participant,
                                      presp_User = part_ShortUser participant\<rparr>\<rparr>),
                             readBody c, g, s2))
                   | _ \<Rightarrow> (Panic, readBody c, g, s1)))))"

text \<open>The loop of \<^verbatim>\<open>getProjects\<close>: it stops at the first failing \<^verbatim>\<open>GetParticipants\<close>.\<close>

fun getProjects_loop ::
  "'s Service \<Rightarrow> 's \<Rightarrow> Project list \<Rightarrow> projectWithParticipantsResp list \<Rightarrow>
     (err + projectWithParticipantsResp list) \<times> 's" where
  "getProjects_loop svc s [] projectsResp = (Inr projectsResp, s)"
| "getProjects_loop svc s (v # vs) projectsResp =
     (case GetParticipants svc s (prj_ID v) of
        (Inl e, s1) \<Rightarrow> (Inl e, s1)
      | (Inr participants, s1) \<Rightarrow>
          getProjects_loop svc s1 vs
            (projectsResp @
               [\<lparr>pwp_ProjectResp = makeProjectResponse v,
                 pwp_Participants = makeParticipantResponses participants\<rparr>]))"

definition getProjects :: "'s Service \<Rightarrow> 's handler" where
  "getProjects svc c gs =
     (case gs of (g, s) \<Rightarrow>
        (case GetProjects svc s \<lparr>gpr_SearchText = Query c ''searchParam''\<rparr> of
           (Inl e, s1) \<Rightarrow> (Abort 400 (ErrorH e), c, g, s1)
         | (Inr projects, s1) \<Rightarrow>
             (case getProjects_loop svc s1 projects [] of
                (Inl e, s2) \<Rightarrow> (Abort 400 (ErrorH e), c, g, s2)
              | (Inr projectsResp, s2) \<Rightarrow> (Reply 200 (ProjectsPayload projectsResp), c, g, s2))))"

text \<open>
  \<^verbatim>\<open>parseBodyToUpdatedProject\<close> assigns the package-level pointer before it decodes, so the
  variable is overwritten also when the body is refused: it then holds what \<^verbatim>\<open>Decode\<close>
  has left in the request.
\<close>

definition parseBodyToUpdatedProject :: "'s Service \<Rightarrow> 's handler" where
  "parseBodyToUpdatedProject svc c gs =
     (case gs of (g, s) \<Rightarrow>
        (case decode_UpdateProjectReq (Body c) of
           (req, Some e) \<Rightarrow>
             (Abort 400 (ErrorH e), readBody c, g\<lparr>updatedProject := Some req\<rparr>, s)
         | (req, None) \<Rightarrow>
             (Silent,
              (readBody c)\<lparr>Keys := (Keys c)(ProjectIDCtx \<mapsto> IntVal (ureq_ID req))\<rparr>,
              g\<lparr>updatedProject := Some req\<rparr>, s)))"

definition updateProject :: "'s Service \<Rightarrow> 's handler" where
  "updateProject svc c gs =
     (case gs of (g, s) \<Rightarrow>
        (case UpdateProject svc s (updatedProject g) of
           (Inl e, s1) \<Rightarrow> (Abort 400 (ErrorH e), c, g, s1)
         | (Inr project, s1) \<Rightarrow>
             (case GetParticipants svc s1 (prj_ID project) of
                (Inl e, s2) \<Rightarrow> (Abort 400 (ErrorH e), c, g, s2)
              | (Inr participants, s2) \<Rightarrow>
                  (Reply 200
                     (ProjectPayload
                        \<lparr>pwp_ProjectResp = makeProjectResponse project,
                         pwp_Participants = makeParticipantResponses participants\<rparr>),
                   c, g, s2))))"

text \<open>
  \<^verbatim>\<open>parseBodyToDeletedProject\<close> hands the package-level pointer itself to \<^verbatim>\<open>Decode\<close>: the
  pointer is never assigned, only its pointee is written when there is one.
\<close>

definition parseBodyToDeletedProject :: "'s Service \<Rightarrow> 's handler" where
  "parseBodyToDeletedProject svc c gs =
     (case gs of (g, s) \<Rightarrow>
        (case decode_int_ptr (Body c) (deletedProjectID g) of
           Inl e \<Rightarrow> (Abort 400 (ErrorH e), readBody c, g, s)
         | Inr n \<Rightarrow>
             (Silent,
              (readBody c)\<lparr>Keys := (Keys c)(ProjectIDCtx \<mapsto> IntPtrVal (Some n))\<rparr>,
              g\<lparr>deletedProjectID := Some n\<rparr>, s)))"

text \<open>
  \<^verbatim>\<open>deleteProject\<close> dereferences the package-level pointer to build the argument of
  \<^verbatim>\<open>DeleteProject\<close>: a \<^verbatim>\<open>nil\<close> pointer panics before the call.
\<close>

definition deleteProject :: "'s Service \<Rightarrow> 's handler" where
  "deleteProject svc c gs =
     (case gs of (g, s) \<Rightarrow>
        (case deletedProjectID g of
           None \<Rightarrow> (Panic, c, g, s)
         | Some pid \<Rightarrow>
             (case DeleteProject svc s pid of
                (Some e, s1) \<Rightarrow> (Abort 400 (ErrorH e), c, g, s1)
              | (None, s1) \<Rightarrow> (Reply 200 NullPayload, c, g, s1))))"

definition sendProjectInfoResponse :: "'s Service \<Rightarrow> int \<Rightarrow> 's handler" where
  "sendProjectInfoResponse svc projectID c gs =
     (case gs of (g, s) \<Rightarrow>
        (case GetProjectInfo svc s projectID of
           (Inl e, s1) \<Rightarrow> (Abort 400 (ErrorH e), c, g, s1)
         | (Inr projectInfo, s1) \<Rightarrow>
             (Reply 200
                (ProjectInfoPayload
                   \<lparr>pir_ProjectResp =
                      \<lparr>resp_ID = prj_ID (pi_Project projectInfo),
                       resp_Name = prj_Name (pi_Project projectInfo),
                       resp_Description = ns_String (prj_Description (pi_Project projectInfo)),
                       resp_PhotoURL = ns_String (prj_PhotoURL (pi_Project projectInfo)),
                       resp_ActiveTo = prj_ActiveTo (pi_Project projectInfo),
                       resp_ReportURL = ns_String (prj_ReportURL (pi_Project projectInfo)),
                       resp_ReportName = ns_String (prj_ReportName (pi_Project projectInfo)),
                       resp_RepoURL = ns_String (prj_RepoURL (pi_Project projectInfo))\<rparr>,
                    pir_Participants = pi_Participants projectInfo,
                    pir_Tasks =
                      map (\<lambda>v. makeShortTaskResponse (ShortTask.truncate v))
                        (pi_Tasks projectInfo)\<rparr>),
              c, g, s1)))"

definition getProjectInfo :: "'s Service \<Rightarrow> 's handler" where
  "getProjectInfo svc c gs =
     (case Atoi (Param c ''projectId'') of
        Inl e \<Rightarrow> (Abort 400 (ErrValue e), c, gs)
      | Inr projectID \<Rightarrow> sendProjectInfoResponse svc projectID c gs)"

text \<open>
  \<^verbatim>\<open>getProjectCommits\<close>.  The hours between the first and the last commit are computed by
  package \<^verbatim>\<open>time\<close> in floating point; the function is taken as the parameter \<open>hours\<close>
  (first argument the last commit, second the first commit).
\<close>

definition getProjectCommits :: "(Time \<Rightarrow> Time \<Rightarrow> int) \<Rightarrow> 's Service \<Rightarrow> 's handler" where
  "getProjectCommits hours svc c gs =
     (case gs of (g, s) \<Rightarrow>
        (case Atoi (Param c ''projectId'') of
           Inl e \<Rightarrow> (Abort 400 (ErrValue e), c, g, s)
         | Inr projectID \<Rightarrow>
             (case GetProjectCommits svc s projectID of
                (Inl e, s1) \<Rightarrow> (Silent, c, g, s1)
              | (Inr commitsInfo, s1) \<Rightarrow>
                  (Reply 200
                     (CommitsPayload
                        (map (\<lambda>info.
                                \<lparr>cir_User = ci_ShortUser info,
                                 cir_Metrics =
                                   \<lparr>m_Count = ci_TotalCommits info,
                                    m_Time = hours (ci_LastCommitDate info)
                                               (ci_FirstCommitDate info)\<rparr>\<rparr>)
                           commitsInfo)),
                   c, g, s1))))"

section \<open>Routes and middleware\<close>

text \<open>
  A chain of gin handlers: a handler that aborts or panics ends the chain; after a
  handler that only wrote a response, or wrote nothing, the next one runs.  The result
  is the list of responses written, in order.
\<close>

fun runChain :: "'s handler list \<Rightarrow> Context \<Rightarrow> Globals \<times> 's \<Rightarrow> result list \<times> Context \<times> Globals \<times> 's" where
  "runChain [] c gs = ([], c, gs)"
| "runChain (h # hs) c gs =
     (case h c gs of
        (Silent, c1, gs1) \<Rightarrow> runChain hs c1 gs1
      | (Reply st p, c1, gs1) \<Rightarrow>
          (case runChain hs c1 gs1 of (rs, c2, gs2) \<Rightarrow> (Reply st p # rs, c2, gs2))
      | (Abort st p, c1, gs1) \<Rightarrow> ([Abort st p], c1, gs1)
      | (Panic, c1, gs1) \<Rightarrow> ([Panic], c1, gs1))"

text \<open>
  The route table that \<^verbatim>\<open>New\<close> builds, each route with the middleware of its groups in
  front of its own handlers.  (\<^verbatim>\<open>gin.Default()\<close> also installs a logger and a recovery
  handler on every route; they are left out.)
\<close>

datatype step =
    AuthMiddleware "UserRole list"
  | SelfUpdateMiddleware
  | VerifyParticipantMiddleware
  | VerifyParticipantRoleMiddleware "ParticipantRole list"
  | Handler string

definition routes :: "(string \<times> string \<times> step list) list" where
  "routes =
     [(''GET'', ''/index'', [Handler ''index'']),
      (''POST'', ''/api/auth'', [Handler ''auth'']),
      (''POST'', ''/api/register'', [Handler ''register'']),
      (''GET'', ''/api/user/'', [Handler ''getPartialUsers'']),
      (''GET'', ''/api/user/:id'', [Handler ''getUserProfile'']),
      (''POST'', ''/api/user/:id'', [SelfUpdateMiddleware, Handler ''updateUser'']),
      (''POST'', ''/api/pm/'', [AuthMiddleware [ProjectManager], Handler ''createProject'']),
      (''POST'', ''/api/project/'',
         [AuthMiddleware [Admin, ProjectManager, Student], Handler ''updateProject'']),
      (''GET'', ''/api/project/:project_id'',
         [AuthMiddleware [Admin, ProjectManager, Student], Handler ''getProjectInfo'']),
      (''DELETE'', ''/api/project/:project_id'',
         [AuthMiddleware [Admin, ProjectManager, Student],
          VerifyParticipantRoleMiddleware [RoleOwner], Handler ''deleteProject'']),
      (''POST'', ''/api/project/:project_id/'',
         [AuthMiddleware [Admin, ProjectManager, Student],
          VerifyParticipantRoleMiddleware [RoleOwner, RoleTeamlead], Handler ''addParticipant'']),
      (''DELETE'', ''/api/project/:project_id/:user_id'',
         [AuthMiddleware [Admin, ProjectManager, Student],
          VerifyParticipantRoleMiddleware [RoleOwner, RoleTeamlead],
          Handler ''deleteParticipant'']),
      (''POST'', ''/api/project/:project_id/task/'',
         [AuthMiddleware [Admin, ProjectManager, Student], VerifyParticipantMiddleware,
          Handler ''createTask'']),
      (''PUT'', ''/api/project/:project_id/task/'',
         [AuthMiddleware [Admin, ProjectManager, Student], VerifyParticipantMiddleware,
          Handler ''updateTask'']),
      (''GET'', ''/api/project/:project_id/task/:task_id'',
         [AuthMiddleware [Admin, ProjectManager, Student], VerifyParticipantMiddleware,
          Handler ''getTaskInfo'']),
      (''DELETE'', ''/api/project/:project_id/task/:task_id'',
         [AuthMiddleware [Admin, ProjectManager, Student], VerifyParticipantMiddleware,
          Handler ''deleteTask'']),
      (''GET'', ''/api/admin/users'', [AuthMiddleware [Admin], Handler ''getFullUsers'']),
      (''POST'', ''/api/admin/users'', [AuthMiddleware [Admin], Handler ''updateUser'']),
      (''GET'', ''/api/admin/projects'', [AuthMiddleware [Admin], Handler ''getProjects''])]"

text \<open>
  Modelled from the spec: the status of an error response is set in files that are not
  covered here.  By section 6 it is 401 for a missing or invalid token, 403 for a role that
  is not allowed, and 400 otherwise.
\<close>

definition statusOf :: "err \<Rightarrow> nat" where
  "statusOf e = (if e = Unauthorized then 401 else if e = Forbidden then 403 else 400)"

text \<open>
  Modelled from the spec: \<^verbatim>\<open>authMiddleware\<close> is declared in another file of the package.
  By sections 2, 4.1 and 6 it verifies the bearer token against the allowed global roles
  and aborts with 401 (invalid token) or 403 (forbidden by role) before the handler
  runs; the handlers then find the authenticated user's id in the request context
  (\<^verbatim>\<open>createProject\<close> reads it under \<^verbatim>\<open>domain.UserIDCtx\<close>).
\<close>

definition authMiddleware :: "'s Service \<Rightarrow> UserRole list \<Rightarrow> 's handler" where
  "authMiddleware svc toAllow c gs =
     (case gs of (g, s) \<Rightarrow>
        (case VerifyToken svc s (Token c) toAllow of
           (Some e, s1) \<Rightarrow> (Abort (statusOf e) (ErrorH e), c, g, s1)
         | (None, s1) \<Rightarrow>
             (case GetUserIDFromToken svc s1 (Token c) of
                (Inl e, s2) \<Rightarrow> (Abort (statusOf e) (ErrorH e), c, g, s2)
              | (Inr uid, s2) \<Rightarrow>
                  (Silent, c\<lparr>Keys := (Keys c)(UserIDCtx \<mapsto> UUIDVal uid)\<rparr>, g, s2))))"

text \<open>
  The handler that a step of a route stands for.  The handlers of \<^verbatim>\<open>project.go\<close> are the
  definitions above; the other handlers and the middleware are declared in files that
  are not covered here and are taken as the parameter \<open>ext\<close>.
\<close>

definition stepHandler ::
  "(Time \<Rightarrow> Time \<Rightarrow> int) \<Rightarrow> 's Service \<Rightarrow> (step \<Rightarrow> 's handler) \<Rightarrow> step \<Rightarrow> 's handler" where
  "stepHandler hours svc ext st =
     (case st of
        Handler name \<Rightarrow>
          (if name = ''createProject'' then createProject svc
           else if name = ''getProjects'' then getProjects svc
           else if name = ''updateProject'' then updateProject svc
           else if name = ''deleteProject'' then deleteProject svc
           else if name = ''getProjectInfo'' then getProjectInfo svc
           else if name = ''getProjectCommits'' then getProjectCommits hours svc
           else if name = ''parseBodyToUpdatedProject'' then parseBodyToUpdatedProject svc
           else if name = ''parseBodyToDeletedProject'' then parseBodyToDeletedProject svc
           else ext st)
      | _ \<Rightarrow> ext st)"

definition runRoute ::
  "(Time \<Rightarrow> Time \<Rightarrow> int) \<Rightarrow> 's Service \<Rightarrow> (step \<Rightarrow> 's handler) \<Rightarrow> step list \<Rightarrow>
     Context \<Rightarrow> Globals \<times> 's \<Rightarrow> result list \<times> Context \<times> Globals \<times> 's" where
  "runRoute hours svc ext chain = runChain (map (stepHandler hours svc ext) chain)"

text \<open>
  Modelled from the spec: the middleware of the routes, with \<^verbatim>\<open>authMiddleware\<close> as modelled
  above and \<open>ext\<close> for the steps that the specification does not describe.
\<close>

definition specMiddleware :: "'s Service \<Rightarrow> (step \<Rightarrow> 's handler) \<Rightarrow> step \<Rightarrow> 's handler" where
  "specMiddleware svc ext st =
     (case st of AuthMiddleware toAllow \<Rightarrow> authMiddleware svc toAllow | _ \<Rightarrow> ext st)"

text \<open>
  Handler invocations one after the other, each with the context of its own request:
  the requests that the server has handled so far, in whatever order their handlers
  ran.  Only the package-level variables and the persistence layer pass from one
  invocation to the next.
\<close>

fun invoke ::
  "(Time \<Rightarrow> Time \<Rightarrow> int) \<Rightarrow> 's Service \<Rightarrow> (step \<Rightarrow> 's handler) \<Rightarrow> (step \<times> Context) list \<Rightarrow>
     Globals \<times> 's \<Rightarrow> Globals \<times> 's" where
  "invoke hours svc ext [] gs = gs"
| "invoke hours svc ext (call # calls) gs =
     invoke hours svc ext calls (snd (snd (stepHandler hours svc ext (fst call) (snd call) gs)))"

section \<open>The domain operations, from the specification\<close>

text \<open>
  The service that implements the interface is not among the files covered here.  Its
  operations are modelled from sections 3, 4 and 7 of the specification.
\<close>

text \<open>
  Modelled from the spec: the rows of the persistence layer, which is not covered here: the
  users, the token store (section 6: "opaque string token to UserID, with expiry"; a
  token that has expired is not in it), the projects and the participants.
\<close>

record Store =
  st_users :: "User list"
  st_tokens :: "(string \<times> uuid) list"
  st_projects :: "Project list"
  st_participants :: "Participant list"

text \<open>Modelled from the spec: the persistence layer's lookup of a user by id.\<close>

definition findUser :: "Store \<Rightarrow> uuid \<Rightarrow> User option" where
  "findUser st uid = find (\<lambda>u. usr_ID u = uid) (st_users st)"

text \<open>Modelled from the spec: the persistence layer's lookup of a project by id.\<close>

definition findProject :: "Store \<Rightarrow> int \<Rightarrow> Project option" where
  "findProject st pid = find (\<lambda>p. prj_ID p = pid) (st_projects st)"

text \<open>
  Modelled from the spec: the persistence layer's lookup of the participant row of a
  user and a project.
\<close>

definition findParticipant :: "Store \<Rightarrow> uuid \<Rightarrow> int \<Rightarrow> Participant option" where
  "findParticipant st uid pid =
     find (\<lambda>p. su_ID (part_ShortUser p) = uid \<and> part_ProjectID p = pid) (st_participants st)"

text \<open>
  Modelled from the spec: the short projection of a user (section 4.4), the identity and
  the display fields.
\<close>

definition shortUserOf :: "User \<Rightarrow> ShortUser" where
  "shortUserOf u =
     \<lparr>su_ID = usr_ID u, su_FirstName = usr_FirstName u, su_LastName = usr_LastName u,
      su_Group = usr_Group u, su_GithubUsername = usr_GithubUsername u\<rparr>"

text \<open>
  Modelled from the spec: \<^verbatim>\<open>GetUserIDFromToken\<close> (section 4.1) "fails Unauthorized on
  invalid token".
\<close>

definition spec_GetUserIDFromToken :: "Store \<Rightarrow> string \<Rightarrow> (err + uuid) \<times> Store" where
  "spec_GetUserIDFromToken st token =
     (case map_of (st_tokens st) token of
        None \<Rightarrow> (Inl Unauthorized, st)
      | Some uid \<Rightarrow> (Inr uid, st))"

text \<open>
  Modelled from the spec: \<^verbatim>\<open>VerifyToken\<close> (section 4.1) "fails with Unauthorized if token
  invalid/expired, Forbidden if resolved user's global role is not in allowedGlobalRoles
  (empty set = any authenticated user accepted)"; by section 8 the token of a deleted
  or non-existent user fails Unauthorized.
\<close>

definition spec_VerifyToken :: "Store \<Rightarrow> string \<Rightarrow> UserRole list \<Rightarrow> err option \<times> Store" where
  "spec_VerifyToken st token toAllow =
     (case map_of (st_tokens st) token of
        None \<Rightarrow> (Some Unauthorized, st)
      | Some uid \<Rightarrow>
          (case findUser st uid of
             None \<Rightarrow> (Some Unauthorized, st)
           | Some u \<Rightarrow>
               (if toAllow = [] \<or> usr_Role u \<in> set toAllow then (None, st)
                else (Some Forbidden, st))))"

text \<open>
  Modelled from the spec: \<^verbatim>\<open>VerifyParticipantRole\<close> (section 4.2) "resolves the Participant
  row; fails Forbidden if absent, or if its role is not in allowedRoles", after the
  tie-break of the same section: "a user with global role Admin bypasses project-scoped
  checks entirely (global-role gate short-circuits before participant-role gate is
  evaluated)", as "an explicit bypass step".
\<close>

definition spec_VerifyParticipantRole ::
  "Store \<Rightarrow> uuid \<Rightarrow> int \<Rightarrow> ParticipantRole list \<Rightarrow> err option \<times> Store" where
  "spec_VerifyParticipantRole st userID projectID toAllow =
     (if (case findUser st userID of None \<Rightarrow> False | Some u \<Rightarrow> usr_Role u = Admin)
      then (None, st)
      else (case findParticipant st userID projectID of
              None \<Rightarrow> (Some Forbidden, st)
            | Some p \<Rightarrow>
                (if part_Role p \<in> set toAllow then (None, st) else (Some Forbidden, st))))"

text \<open>
  Modelled from the spec: the identifier that the persistence layer gives a new row is
  one that no stored row of the table has.
\<close>

definition freshID :: "int list \<Rightarrow> int" where
  "freshID ids = fold max ids 0 + 1"

text \<open>
  Modelled from the spec: \<^verbatim>\<open>CreateProject\<close> (section 4.3) "validates required name;
  persists Project".  The new project has the request's fields and no report or
  repository link yet.
\<close>

definition spec_CreateProject :: "Store \<Rightarrow> CreateProjectReq \<Rightarrow> (err + Project) \<times> Store" where
  "spec_CreateProject st req =
     (if creq_Name req = [] then (Inl InvalidInput, st)
      else
        (let project =
               \<lparr>prj_ID = freshID (map prj_ID (st_projects st)),
                prj_Name = creq_Name req,
                prj_Description = \<lparr>ns_String = creq_Description req, ns_Valid = True\<rparr>,
                prj_PhotoURL = \<lparr>ns_String = creq_PhotoURL req, ns_Valid = True\<rparr>,
                prj_ActiveTo = creq_ActiveTo req,
                prj_ReportURL = \<lparr>ns_String = [], ns_Valid = False\<rparr>,
                prj_ReportName = \<lparr>ns_String = [], ns_Valid = False\<rparr>,
                prj_RepoURL = \<lparr>ns_String = [], ns_Valid = False\<rparr>\<rparr>
         in (Inr project, st\<lparr>st_projects := st_projects st @ [project]\<rparr>)))"

text \<open>
  Modelled from the spec: \<^verbatim>\<open>AddParticipant\<close>.  A participant is the join of a user and a
  project (section 3): the operation fails NotFound when either is absent and Conflict
  when the user already has a row in the project (section 7), and otherwise stores the
  row with the role asked for.  The specification does not say what the boolean
  argument of the call in \<^verbatim>\<open>createProject\<close> selects; it is not used.
\<close>

definition spec_AddParticipant ::
  "Store \<Rightarrow> bool \<Rightarrow> AddedParticipant \<Rightarrow> (err + Participant) \<times> Store" where
  "spec_AddParticipant st flag ap =
     (case findProject st (ap_ProjectID ap) of
        None \<Rightarrow> (Inl NotFound, st)
      | Some project \<Rightarrow>
          (case findUser st (ap_UserID ap) of
             None \<Rightarrow> (Inl NotFound, st)
           | Some u \<Rightarrow>
               (case findParticipant st (ap_UserID ap) (ap_ProjectID ap) of
                  Some p \<Rightarrow> (Inl Conflict, st)
                | None \<Rightarrow>
                    (let participant =
                           \<lparr>part_ID = freshID (map part_ID (st_participants st)),
                            part_Role = ap_Role ap,
                            part_ProjectID = ap_ProjectID ap,
                            part_ShortUser = shortUserOf u\<rparr>
                     in (Inr participant,
                         st\<lparr>st_participants := st_participants st @ [participant]\<rparr>)))))"

text \<open>
  Modelled from the spec: \<^verbatim>\<open>GetParticipants\<close> resolves the participants of a project
  (section 8): the rows of the project, in the order stored.
\<close>

definition spec_GetParticipants :: "Store \<Rightarrow> int \<Rightarrow> (err + Participant list) \<times> Store" where
  "spec_GetParticipants st projectID =
     (Inr (filter (\<lambda>p. part_ProjectID p = projectID) (st_participants st)), st)"

text \<open>
  Modelled from the spec: the patch of \<^verbatim>\<open>UpdateProject\<close> (section 4.3) is sparse: "only
  non-null optional fields in the request overwrite existing columns; fields omitted
  (null) are preserved unchanged".  The optional fields of \<^verbatim>\<open>UpdateProjectReq\<close> are its six
  pointers.  \<^verbatim>\<open>ActiveTo\<close> is a value; the new due date is \<open>due (ureq_ActiveTo req)
  (prj_ActiveTo p)\<close> for a parameter \<open>due\<close>, and \<open>sparseDue\<close> below is the \<open>due\<close> of the
  specification.
\<close>

definition patchProject :: "(Time \<Rightarrow> Time \<Rightarrow> Time) \<Rightarrow> UpdateProjectReq \<Rightarrow> Project \<Rightarrow> Project" where
  "patchProject due req p =
     p\<lparr>prj_Name := (case ureq_Name req of None \<Rightarrow> prj_Name p | Some v \<Rightarrow> v),
       prj_Description :=
         (case ureq_Description req of None \<Rightarrow> prj_Description p
          | Some v \<Rightarrow> \<lparr>ns_String = v, ns_Valid = True\<rparr>),
       prj_PhotoURL :=
         (case ureq_PhotoURL req of None \<Rightarrow> prj_PhotoURL p
          | Some v \<Rightarrow> \<lparr>ns_String = v, ns_Valid = True\<rparr>),
       prj_ReportURL :=
         (case ureq_ReportURL req of None \<Rightarrow> prj_ReportURL p
          | Some v \<Rightarrow> \<lparr>ns_String = v, ns_Valid = True\<rparr>),
       prj_ReportName :=
         (case ureq_ReportName req of None \<Rightarrow> prj_ReportName p
          | Some v \<Rightarrow> \<lparr>ns_String = v, ns_Valid = True\<rparr>),
       prj_RepoURL :=
         (case ureq_RepoURL req of None \<Rightarrow> prj_RepoURL p
          | Some v \<Rightarrow> \<lparr>ns_String = v, ns_Valid = True\<rparr>),
       prj_ActiveTo := due (ureq_ActiveTo req) (prj_ActiveTo p)\<rparr>"

text \<open>
  Modelled from the spec: what \<^verbatim>\<open>UpdateProject\<close> makes of the due date.  By section 4.3 a
  field that the request omits is preserved unchanged.  \<^verbatim>\<open>ActiveTo\<close> is not a pointer: a
  request without \<^verbatim>\<open>dueDate\<close> reaches the operation with the zero \<^verbatim>\<open>time.Time\<close>.  So the zero
  time is the omitted due date and leaves the stored due date as it is, and any other
  time overwrites it.
\<close>

definition sparseDue :: "Time \<Rightarrow> Time \<Rightarrow> Time" where
  "sparseDue new old = (if new = zeroTime then old else new)"

text \<open>
  Modelled from the spec: \<^verbatim>\<open>UpdateProject\<close> fails NotFound when the project is absent
  (section 7), and InvalidInput without a request; otherwise it stores the patched
  project and returns it.
\<close>

definition spec_UpdateProject ::
  "(Time \<Rightarrow> Time \<Rightarrow> Time) \<Rightarrow> Store \<Rightarrow> UpdateProjectReq option \<Rightarrow> (err + Project) \<times> Store" where
  "spec_UpdateProject due st projectReq =
     (case projectReq of
        None \<Rightarrow> (Inl InvalidInput, st)
      | Some req \<Rightarrow>
          (case findProject st (ureq_ID req) of
             None \<Rightarrow> (Inl NotFound, st)
           | Some p \<Rightarrow>
               (Inr (patchProject due req p),
                st\<lparr>st_projects :=
                     map (\<lambda>q. if prj_ID q = ureq_ID req then patchProject due req q else q)
                       (st_projects st)\<rparr>)))"

text \<open>
  Modelled from the spec: the status check of \<^verbatim>\<open>CreateTask\<close> and \<^verbatim>\<open>UpdateTask\<close>.  An
  unknown status literal is InvalidInput (section 7); beyond that "no task status state
  machine is enforced" (section 4.3).
\<close>

definition setTaskStatus :: "Task \<Rightarrow> TaskStatus \<Rightarrow> err + Task" where
  "setTaskStatus t status =
     (case TaskStatuses status of
        None \<Rightarrow> Inl InvalidInput
      | Some u \<Rightarrow> Inr (t\<lparr>tsk_Status := status\<rparr>))"

text \<open>
  Modelled from the spec: the calls of the task operations of section 4.3, as far as the
  status of a task is concerned: \<^verbatim>\<open>CreateTask\<close> with the new task, \<^verbatim>\<open>UpdateTask\<close> with the id of
  a task and the status asked for, \<^verbatim>\<open>DeleteTask\<close> with the id of a task.
\<close>

datatype taskCall = CreateTask Task | UpdateTask int TaskStatus | DeleteTask int

text \<open>
  Modelled from the spec: the task operations on the task rows.  \<^verbatim>\<open>CreateTask\<close> and
  \<^verbatim>\<open>UpdateTask\<close> refuse an unknown status literal with InvalidInput and enforce nothing else
  about the status; a task that is absent is NotFound (section 7).  The checks of the
  creator and of the assignee are left out: they refuse more calls and store nothing
  else.
\<close>

fun spec_taskCall :: "Task list \<Rightarrow> taskCall \<Rightarrow> err option \<times> Task list" where
  "spec_taskCall rows (CreateTask t) =
     (case setTaskStatus (t\<lparr>tsk_ID := freshID (map tsk_ID rows)\<rparr>) (tsk_Status t) of
        Inl e \<Rightarrow> (Some e, rows)
      | Inr t' \<Rightarrow> (None, rows @ [t']))"
| "spec_taskCall rows (UpdateTask i status) =
     (case find (\<lambda>q. tsk_ID q = i) rows of
        None \<Rightarrow> (Some NotFound, rows)
      | Some t \<Rightarrow>
          (case setTaskStatus t status of
             Inl e \<Rightarrow> (Some e, rows)
           | Inr t' \<Rightarrow>
               (None, map (\<lambda>q. if tsk_ID q = i then q\<lparr>tsk_Status := tsk_Status t'\<rparr> else q) rows)))"
| "spec_taskCall rows (DeleteTask i) =
     (case find (\<lambda>q. tsk_ID q = i) rows of
        None \<Rightarrow> (Some NotFound, rows)
      | Some t \<Rightarrow> (None, filter (\<lambda>q. tsk_ID q \<noteq> i) rows))"

text \<open>
  Modelled from the spec: the task rows after a sequence of calls; a call that is
  refused leaves the rows as they are.
\<close>

fun spec_taskCalls :: "Task list \<Rightarrow> taskCall list \<Rightarrow> Task list" where
  "spec_taskCalls rows [] = rows"
| "spec_taskCalls rows (call # calls) = spec_taskCalls (snd (spec_taskCall rows call)) calls"

section \<open>Stores that differ in the hashed passwords only\<close>

text \<open>
  The vocabulary for "a response shows nothing of a hashed password": two states of the
  persistence layer are alike when they are the same once every user's
  \<^verbatim>\<open>HashedPassword\<close> is blanked, and an operation of the service is blind to the hashes when,
  on alike states and the same argument, it returns the same result and leaves alike
  states.
\<close>

definition eraseHash :: "User \<Rightarrow> User" where
  "eraseHash u = u\<lparr>usr_HashedPassword := []\<rparr>"

definition eraseHashes :: "Store \<Rightarrow> Store" where
  "eraseHashes st = st\<lparr>st_users := map eraseHash (st_users st)\<rparr>"

definition sameButHashes :: "Store \<Rightarrow> Store \<Rightarrow> bool" where
  "sameButHashes st st' = (eraseHashes st = eraseHashes st')"

definition hashBlind :: "(Store \<Rightarrow> 'a \<Rightarrow> 'r \<times> Store) \<Rightarrow> bool" where
  "hashBlind operation =
     (\<forall>st st' a. sameButHashes st st' \<longrightarrow>
        fst (operation st a) = fst (operation st' a)
        \<and> sameButHashes (snd (operation st a)) (snd (operation st' a)))"

section \<open>The response payload as JSON\<close>

text \<open>
  What \<^verbatim>\<open>c.JSON\<close> and \<^verbatim>\<open>c.AbortWithStatusJSON\<close> serialise.  A struct becomes an object with
  one member per field, under the name of its \<^verbatim>\<open>json\<close> tag; the fields of an embedded
  struct without a tag are members of the embedding object.  A time, a UUID and the text
  of an error (\<^verbatim>\<open>err.Error()\<close>) are written as strings; they are leaves here.
\<close>

datatype json =
    VNull
  | VNum int
  | VStr string
  | VTime Time
  | VUuid uuid
  | VErrText err
  | VArr "json list"
  | VObj "(string \<times> json) list"

fun keysOf :: "json \<Rightarrow> string list" where
  "keysOf (VArr vs) = concat (map keysOf vs)"
| "keysOf (VObj kvs) = concat (map (\<lambda>kv. fst kv # keysOf (snd kv)) kvs)"
| "keysOf v = []"

text \<open>
  Modelled from the spec: the JSON names of \<^verbatim>\<open>model.ShortUser\<close>, which is declared outside
  the files covered here: the short projection of section 4.4, one member per field.
\<close>

definition enc_ShortUser :: "ShortUser \<Rightarrow> json" where
  "enc_ShortUser u =
     VObj [(''id'', VUuid (su_ID u)), (''firstName'', VStr (su_FirstName u)),
           (''lastName'', VStr (su_LastName u)), (''group'', VStr (su_Group u)),
           (''githubUsername'', VStr (su_GithubUsername u))]"

text \<open>
  Modelled from the spec: the JSON names of \<^verbatim>\<open>ParticipantResp\<close>, which is declared in
  another file of the package: one member per field, the user as a short user.
\<close>

definition enc_ParticipantResp :: "ParticipantResp \<Rightarrow> json" where
  "enc_ParticipantResp r =
     VObj [(''id'', VNum (presp_ID r)), (''role'', VStr (presp_Role r)),
           (''projectId'', VNum (presp_ProjectID r)), (''user'', enc_ShortUser (presp_User r))]"

text \<open>
  Modelled from the spec: the JSON names of \<^verbatim>\<open>model.Participant\<close>, which is declared outside
  the files covered here: one member per field, the user as a short user.
\<close>

definition enc_Participant :: "Participant \<Rightarrow> json" where
  "enc_Participant r =
     VObj [(''id'', VNum (part_ID r)), (''role'', VStr (part_Role r)),
           (''projectId'', VNum (part_ProjectID r)), (''user'', enc_ShortUser (part_ShortUser r))]"

text \<open>
  Modelled from the spec: the JSON names of \<^verbatim>\<open>ShortTaskResp\<close>, which is declared in another
  file of the package: those of the fields of \<^verbatim>\<open>ShortTask\<close>.
\<close>

definition enc_ShortTaskResp :: "ShortTaskResp \<Rightarrow> json" where
  "enc_ShortTaskResp t =
     VObj [(''id'', VNum (tr_ID t)), (''title'', VStr (tr_Name t)),
           (''description'', VStr (tr_Description t)), (''asignee'', VNum (tr_ParticipantID t)),
           (''creatorId'', VNum (tr_CreatorID t)), (''status'', VStr (tr_Status t)),
           (''estimatedTime'', VStr (tr_Estimate t)), (''createdAt'', VTime (tr_CreatedAt t)),
           (''updatedAt'', VTime (tr_UpdatedAt t))]"

text \<open>
  The members of the types that \<^verbatim>\<open>project.go\<close> declares, by their tags.  A Go slice is a
  list here, so a \<^verbatim>\<open>nil\<close> slice, which is written as \<^verbatim>\<open>null\<close>, is not told from an empty one,
  which is written as \<^verbatim>\<open>[]\<close>; the members of an object are the same in both cases.
\<close>

definition members_ShortProjectResp :: "'a ShortProjectResp_scheme \<Rightarrow> (string \<times> json) list" where
  "members_ShortProjectResp r =
     [(''id'', VNum (resp_ID r)), (''name'', VStr (resp_Name r)),
      (''description'', VStr (resp_Description r)), (''avatar'', VStr (resp_PhotoURL r)),
      (''dueDate'', VTime (resp_ActiveTo r))]"

definition members_ProjectResp :: "ProjectResp \<Rightarrow> (string \<times> json) list" where
  "members_ProjectResp r =
     members_ShortProjectResp r @
     [(''reportUrl'', VStr (resp_ReportURL r)), (''reportName'', VStr (resp_ReportName r)),
      (''repo'', VStr (resp_RepoURL r))]"

definition enc_CreateProjectResp :: "CreateProjectResp \<Rightarrow> json" where
  "enc_CreateProjectResp r =
     VObj (members_ProjectResp (cresp_ProjectResp r) @
           [(''participants'', enc_ParticipantResp (cresp_ParticipantResp r))])"

definition enc_projectWithParticipantsResp :: "projectWithParticipantsResp \<Rightarrow> json" where
  "enc_projectWithParticipantsResp r =
     VObj (members_ProjectResp (pwp_ProjectResp r) @
           [(''participants'', VArr (map enc_ParticipantResp (pwp_Participants r)))])"

definition enc_projectInfoResp :: "projectInfoResp \<Rightarrow> json" where
  "enc_projectInfoResp r =
     VObj (members_ProjectResp (pir_ProjectResp r) @
           [(''participants'', VArr (map enc_Participant (pir_Participants r))),
            (''tasks'', VArr (map enc_ShortTaskResp (pir_Tasks r)))])"

definition enc_commitsInfoResp :: "commitsInfoResp \<Rightarrow> json" where
  "enc_commitsInfoResp r =
     VObj [(''user'', enc_ShortUser (cir_User r)),
           (''metrics'',
            VObj [(''count'', VNum (m_Count (cir_Metrics r))),
                  (''time'', VNum (m_Time (cir_Metrics r)))])]"

text \<open>
  The payload of a response.  The key of an error object is the constant \<^verbatim>\<open>errField\<close>,
  declared in another file of the package: it is the parameter \<open>errField\<close>.  An error value
  handed to \<^verbatim>\<open>AbortWithStatusJSON\<close> as it is, is the \<^verbatim>\<open>*strconv.NumError\<close> of \<^verbatim>\<open>Atoi\<close>, a
  struct with the fields \<^verbatim>\<open>Func\<close>, \<^verbatim>\<open>Num\<close> and \<^verbatim>\<open>Err\<close>; the \<^verbatim>\<open>Err\<close> inside has no exported
  field.
\<close>

definition encode :: "string \<Rightarrow> payload \<Rightarrow> json" where
  "encode errField p =
     (case p of
        NullPayload \<Rightarrow> VNull
      | ErrorH e \<Rightarrow> VObj [(errField, VErrText e)]
      | ErrValue e \<Rightarrow>
          (case e of
             NumError num \<Rightarrow>
               VObj [(''Func'', VStr ''Atoi''), (''Num'', VStr num), (''Err'', VObj [])]
           | _ \<Rightarrow> VObj [])
      | CreatedPayload r \<Rightarrow> enc_CreateProjectResp r
      | ProjectPayload r \<Rightarrow> enc_projectWithParticipantsResp r
      | ProjectsPayload rs \<Rightarrow> VArr (map enc_projectWithParticipantsResp rs)
      | ProjectInfoPayload r \<Rightarrow> enc_projectInfoResp r
      | CommitsPayload rs \<Rightarrow> VArr (map enc_commitsInfoResp rs))"

text \<open>The handlers of \<^verbatim>\<open>project.go\<close> that are modelled.\<close>

definition projectHandlers :: "(Time \<Rightarrow> Time \<Rightarrow> int) \<Rightarrow> 's Service \<Rightarrow> 's handler list" where
  "projectHandlers hours svc =
     [createProject svc, getProjects svc, parseBodyToUpdatedProject svc, updateProject svc,
      parseBodyToDeletedProject svc, deleteProject svc, getProjectInfo svc,
      getProjectCommits hours svc]"

text \<open>The payloads that a run has written.\<close>

fun payloadsOf :: "result list \<Rightarrow> payload list" where
  "payloadsOf [] = []"
| "payloadsOf (Abort st p # rs) = p # payloadsOf rs"
| "payloadsOf (Reply st p # rs) = p # payloadsOf rs"
| "payloadsOf (r # rs) = payloadsOf rs"

section \<open>Sample values\<close>

text \<open>Concrete requests, services and rows, for the instances of the theorems below.\<close>

definition failingService :: "err \<Rightarrow> 's Service" where
  "failingService e =
     \<lparr>CreateProject = (\<lambda>s r. (Inl e, s)),
      UpdateProject = (\<lambda>s r. (Inl e, s)),
      DeleteProject = (\<lambda>s i. (Some e, s)),
      GetProjects = (\<lambda>s r. (Inl e, s)),
      GetProjectInfo = (\<lambda>s i. (Inl e, s)),
      GetProjectCommits = (\<lambda>s i. (Inl e, s)),
      AddParticipant = (\<lambda>s b r. (Inl e, s)),
      GetParticipants = (\<lambda>s i. (Inl e, s)),
      GetUserIDFromToken = (\<lambda>s t. (Inl e, s)),
      VerifyToken = (\<lambda>s t rs. (Some e, s)),
      VerifySelf = (\<lambda>s t u. (Some e, s)),
      VerifyParticipant = (\<lambda>s u i. (Some e, s)),
      VerifyParticipantRole = (\<lambda>s u i rs. (Some e, s))\<rparr>"

text \<open>The modelled operations, as a service over the rows; the others fail.\<close>

definition specService :: "(Time \<Rightarrow> Time \<Rightarrow> Time) \<Rightarrow> Store Service" where
  "specService due =
     (failingService (Err ''not modelled''))
       \<lparr>CreateProject := spec_CreateProject,
        UpdateProject := spec_UpdateProject due,
        AddParticipant := spec_AddParticipant,
        GetParticipants := spec_GetParticipants,
        GetUserIDFromToken := spec_GetUserIDFromToken,
        VerifyToken := spec_VerifyToken,
        VerifyParticipantRole := spec_VerifyParticipantRole\<rparr>"

definition sampleUser :: "uuid \<Rightarrow> UserRole \<Rightarrow> User" where
  "sampleUser uid role =
     \<lparr>usr_ID = uid, usr_Role = role, usr_ColorCode = ''#fff'', usr_Email = ''u@example.org'',
      usr_Username = ''user'', usr_FirstName = ''First'', usr_LastName = ''Last'',
      usr_Group = ''G1'', usr_GithubUsername = ''gh'', usr_HashedPassword = ''$2a$10$hash''\<rparr>"

definition sampleProject :: "int \<Rightarrow> string \<Rightarrow> Time \<Rightarrow> Project" where
  "sampleProject pid name dueDate =
     \<lparr>prj_ID = pid, prj_Name = name,
      prj_Description = \<lparr>ns_String = ''about'', ns_Valid = True\<rparr>,
      prj_PhotoURL = \<lparr>ns_String = [], ns_Valid = False\<rparr>,
      prj_ActiveTo = dueDate,
      prj_ReportURL = \<lparr>ns_String = [], ns_Valid = False\<rparr>,
      prj_ReportName = \<lparr>ns_String = [], ns_Valid = False\<rparr>,
      prj_RepoURL = \<lparr>ns_String = ''git.example.org/r'', ns_Valid = True\<rparr>\<rparr>"

text \<open>
  A store with a project manager (token \<^verbatim>\<open>t1\<close>), an admin (\<^verbatim>\<open>t2\<close>) and a student
  (\<^verbatim>\<open>t3\<close>), two projects and no participant.
\<close>

definition sampleStore :: Store where
  "sampleStore =
     \<lparr>st_users = [sampleUser 1 ProjectManager, sampleUser 2 Admin, sampleUser 3 Student],
      st_tokens = [(''t1'', 1), (''t2'', 2), (''t3'', 3)],
      st_projects = [sampleProject 1 ''alpha'' 100, sampleProject 2 ''beta'' 200],
      st_participants = []\<rparr>"

definition emptyObject :: JsonObject where
  "emptyObject =
     \<lparr>j_id = None, j_name = None, j_description = None, j_avatar = None,
      j_reportUrl = None, j_reportName = None, j_repo = None, j_dueDate = None\<rparr>"

definition sampleContext :: "string \<Rightarrow> body \<Rightarrow> Context" where
  "sampleContext token b =
     \<lparr>Token = token, Body = b, Param = (\<lambda>k. []), Query = (\<lambda>k. []), Keys = Map.empty\<rparr>"

definition sampleTask :: "TaskStatus \<Rightarrow> Task" where
  "sampleTask status =
     \<lparr>tsk_ID = 1, tsk_Name = ''write report'',
      tsk_Description = \<lparr>ns_String = [], ns_Valid = False\<rparr>,
      tsk_ParticipantID = \<lparr>ni_Int64 = 0, ni_Valid = False\<rparr>,
      tsk_CreatorID = \<lparr>ni_Int64 = 1, ni_Valid = True\<rparr>,
      tsk_Status = status,
      tsk_Estimate = \<lparr>ns_String = [], ns_Valid = False\<rparr>,
      tsk_CreatedAt = 10, tsk_UpdatedAt = 20, tsk_ProjectID = 1\<rparr>"

section \<open>Error handling of the handlers\<close>

lemma sample_decode:
  "decode_CreateProjectReq (Body ((sampleContext ''t1'' (JObject (emptyObject\<lparr>j_name := Some ''gamma''\<rparr>)))
       \<lparr>Keys := [UserIDCtx \<mapsto> UUIDVal 1]\<rparr>))
   = Inr \<lparr>creq_Name = ''gamma'', creq_Description = [], creq_ActiveTo = zeroTime, creq_PhotoURL = []\<rparr>"
  by (simp add: decode_CreateProjectReq_def sampleContext_def emptyObject_def)

text \<open>
  Claim C5.  In \<^verbatim>\<open>createProject\<close> the two steps fail each with its own error response.
  When \<^verbatim>\<open>CreateProject\<close> fails, the handler aborts with status 400 and that error, and
  the persistence layer is left as \<^verbatim>\<open>CreateProject\<close> left it whatever \<^verbatim>\<open>AddParticipant\<close>
  would do: no participant is added.  When \<^verbatim>\<open>CreateProject\<close> succeeds and
  \<^verbatim>\<open>AddParticipant\<close> fails, the handler aborts with status 400 and the error of
  \<^verbatim>\<open>AddParticipant\<close>, not with the 201 response.
\<close>

theorem createProject_surfaces_both_failures:
  assumes "decode_CreateProjectReq (Body c) = Inr req"
  shows "(CreateProject svc s req = (Inl e, s1) \<longrightarrow>
            (\<forall>f. createProject (svc\<lparr>AddParticipant := f\<rparr>) c (g, s)
                   = (Abort 400 (ErrorH e), readBody c, g, s1)))
       \<and> (CreateProject svc s req = (Inr project, s1) \<longrightarrow>
            Keys c UserIDCtx = Some (UUIDVal uid) \<longrightarrow>
            AddParticipant svc s1 True
              \<lparr>ap_Role = RoleOwner, ap_UserID = uid, ap_ProjectID = prj_ID project\<rparr> = (Inl e, s2) \<longrightarrow>
            createProject svc c (g, s) = (Abort 400 (ErrorH e), readBody c, g, s2))"
  using assms by (simp add: createProject_def)

theorem createProject_surfaces_both_failures_witness:
  "createProject (failingService (Err ''no database''))
     ((sampleContext ''t1'' (JObject (emptyObject\<lparr>j_name := Some ''gamma''\<rparr>)))
        \<lparr>Keys := [UserIDCtx \<mapsto> UUIDVal 1]\<rparr>)
     (initGlobals, sampleStore)
   = (Abort 400 (ErrorH (Err ''no database'')),
      readBody ((sampleContext ''t1'' (JObject (emptyObject\<lparr>j_name := Some ''gamma''\<rparr>)))
        \<lparr>Keys := [UserIDCtx \<mapsto> UUIDVal 1]\<rparr>),
      initGlobals, sampleStore)
   \<and> createProject ((specService (\<lambda>new old. new))\<lparr>AddParticipant := (\<lambda>s b r. (Inl Conflict, s))\<rparr>)
     ((sampleContext ''t1'' (JObject (emptyObject\<lparr>j_name := Some ''gamma''\<rparr>)))
        \<lparr>Keys := [UserIDCtx \<mapsto> UUIDVal 1]\<rparr>)
     (initGlobals, sampleStore)
   = (Abort 400 (ErrorH Conflict),
      readBody ((sampleContext ''t1'' (JObject (emptyObject\<lparr>j_name := Some ''gamma''\<rparr>)))
        \<lparr>Keys := [UserIDCtx \<mapsto> UUIDVal 1]\<rparr>),
      initGlobals,
      snd (spec_CreateProject sampleStore
             \<lparr>creq_Name = ''gamma'', creq_Description = [], creq_ActiveTo = zeroTime, creq_PhotoURL = []\<rparr>))"
proof -
  let ?c = "(sampleContext ''t1'' (JObject (emptyObject\<lparr>j_name := Some ''gamma''\<rparr>)))
        \<lparr>Keys := [UserIDCtx \<mapsto> UUIDVal 1]\<rparr>"
  let ?req = "\<lparr>creq_Name = ''gamma'', creq_Description = [], creq_ActiveTo = zeroTime, creq_PhotoURL = []\<rparr>"
  have k: "Keys ?c UserIDCtx = Some (UUIDVal 1)" by simp
  have a: "CreateProject (failingService (Err ''no database'')) sampleStore ?req
             = (Inl (Err ''no database''), sampleStore)"
    by (simp add: failingService_def)
  obtain p s1 where b: "spec_CreateProject sampleStore ?req = (Inr p, s1)"
    by (simp add: spec_CreateProject_def Let_def)
  let ?svc = "(specService (\<lambda>new old. new))\<lparr>AddParticipant := (\<lambda>s b r. (Inl Conflict, s))\<rparr>"
  have b': "CreateProject ?svc sampleStore ?req = (Inr p, s1)"
    using b by (simp add: specService_def)
  have c: "AddParticipant ?svc s1 True \<lparr>ap_Role = RoleOwner, ap_UserID = 1, ap_ProjectID = prj_ID p\<rparr>
             = (Inl Conflict, s1)"
    by simp
  note th = createProject_surfaces_both_failures [OF sample_decode]
  from th [where svc = "failingService (Err ''no database'')" and s = sampleStore
             and e = "Err ''no database''" and ?s1.0 = sampleStore and g = initGlobals] a
  have "\<forall>f. createProject ((failingService (Err ''no database''))\<lparr>AddParticipant := f\<rparr>) ?c (initGlobals, sampleStore)
     = (Abort 400 (ErrorH (Err ''no database'')), readBody ?c, initGlobals, sampleStore)"
    by blast
  then have "createProject ((failingService (Err ''no database''))\<lparr>AddParticipant := AddParticipant (failingService (Err ''no database''))\<rparr>) ?c (initGlobals, sampleStore)
     = (Abort 400 (ErrorH (Err ''no database'')), readBody ?c, initGlobals, sampleStore)"
    by blast
  then have 1: "createProject (failingService (Err ''no database'')) ?c (initGlobals, sampleStore)
     = (Abort 400 (ErrorH (Err ''no database'')), readBody ?c, initGlobals, sampleStore)"
    by simp
  from th [where svc = ?svc and s = sampleStore and e = Conflict and ?s1.0 = s1 and project = p
             and uid = 1 and ?s2.0 = s1 and g = initGlobals] b' k c
  have 2: "createProject ?svc ?c (initGlobals, sampleStore) = (Abort 400 (ErrorH Conflict), readBody ?c, initGlobals, s1)"
    by blast
  from 1 2 b show ?thesis by simp
qed

text \<open>
  Claim C8.  Not every failing service call is answered with an error response:
  when \<^verbatim>\<open>GetProjectCommits\<close> fails, \<^verbatim>\<open>getProjectCommits\<close> returns without writing a status
  or a payload.  (\<^verbatim>\<open>getProjectReport\<close> has the same bare \<^verbatim>\<open>return\<close>.)  The other handlers
  abort with status 400 and the error.
\<close>

theorem getProjectCommits_swallows_service_error:
  "getProjectCommits (\<lambda>last first. 0) (failingService (Err ''no database''))
     ((sampleContext ''t1'' NoJSON)\<lparr>Param := (\<lambda>k. ''1'')\<rparr>) (initGlobals, sampleStore)
   = (Silent, (sampleContext ''t1'' NoJSON)\<lparr>Param := (\<lambda>k. ''1'')\<rparr>, initGlobals, sampleStore)"
  by (simp add: getProjectCommits_def failingService_def Atoi_def digitVal_def)

section \<open>Authorization\<close>

text \<open>
  Claim C3.  For a user whose global role is Admin, \<^verbatim>\<open>VerifyParticipantRole\<close> succeeds for
  every project and every list of allowed roles, whatever the participant rows are
  (also when there are none): the bypass is decided before a participant row is looked
  at.
\<close>

theorem admin_bypasses_participant_role:
  assumes "findUser st userID = Some u" and "usr_Role u = Admin"
  shows "spec_VerifyParticipantRole (st\<lparr>st_participants := rows\<rparr>) userID projectID toAllow
           = (None, st\<lparr>st_participants := rows\<rparr>)"
  using assms by (simp add: spec_VerifyParticipantRole_def findUser_def)

theorem admin_bypasses_participant_role_witness:
  "findUser sampleStore 2 = Some (sampleUser 2 Admin)
   \<and> spec_VerifyParticipantRole (sampleStore\<lparr>st_participants := []\<rparr>) 2 7 [RoleOwner]
       = (None, sampleStore\<lparr>st_participants := []\<rparr>)"
proof -
  have a: "findUser sampleStore 2 = Some (sampleUser 2 Admin)"
    by (simp add: findUser_def sampleStore_def sampleUser_def)
  have b: "usr_Role (sampleUser 2 Admin) = Admin" by (simp add: sampleUser_def)
  from admin_bypasses_participant_role [OF a b, of "[]" 7 "[RoleOwner]"] a show ?thesis by simp
qed

lemma createProject_routes:
  "(m, p, chain) \<in> set routes \<Longrightarrow> Handler ''createProject'' \<in> set chain \<Longrightarrow>
   chain = [AuthMiddleware [ProjectManager], Handler ''createProject'']"
  by (auto simp: routes_def)

lemma find_Some_prop: "find P xs = Some x \<Longrightarrow> P x"
  by (induction xs) (auto split: if_splits)

text \<open>
  Claim C7.  \<^verbatim>\<open>createProject\<close> is registered on one route only, behind the middleware
  that allows the global role \<^verbatim>\<open>project_manager\<close>.  A request on that route either
  carries the token of a stored user whose role is \<^verbatim>\<open>project_manager\<close>, and the handler
  runs with that user's id in the context; or the middleware aborts with 401 or 403 and
  the handler does not run: the context, the package-level variables and the persistence
  layer are as before.
\<close>

theorem createProject_reached_only_by_project_manager:
  assumes "(m, p, chain) \<in> set routes" and "Handler ''createProject'' \<in> set chain"
  shows "(\<exists>u. map_of (st_tokens st) (Token c) = Some (usr_ID u)
             \<and> findUser st (usr_ID u) = Some u
             \<and> usr_Role u = ProjectManager
             \<and> runRoute hours
                 (svc\<lparr>VerifyToken := spec_VerifyToken, GetUserIDFromToken := spec_GetUserIDFromToken\<rparr>)
                 (specMiddleware
                    (svc\<lparr>VerifyToken := spec_VerifyToken,
                         GetUserIDFromToken := spec_GetUserIDFromToken\<rparr>) ext)
                 chain c (g, st)
               = runChain
                   [createProject
                      (svc\<lparr>VerifyToken := spec_VerifyToken,
                           GetUserIDFromToken := spec_GetUserIDFromToken\<rparr>)]
                   (c\<lparr>Keys := (Keys c)(UserIDCtx \<mapsto> UUIDVal (usr_ID u))\<rparr>) (g, st))
       \<or> (\<exists>e. (e = Unauthorized \<or> e = Forbidden)
             \<and> runRoute hours
                 (svc\<lparr>VerifyToken := spec_VerifyToken, GetUserIDFromToken := spec_GetUserIDFromToken\<rparr>)
                 (specMiddleware
                    (svc\<lparr>VerifyToken := spec_VerifyToken,
                         GetUserIDFromToken := spec_GetUserIDFromToken\<rparr>) ext)
                 chain c (g, st)
               = ([Abort (statusOf e) (ErrorH e)], c, g, st))"
proof -
  let ?svc = "svc\<lparr>VerifyToken := spec_VerifyToken, GetUserIDFromToken := spec_GetUserIDFromToken\<rparr>"
  have chain: "chain = [AuthMiddleware [ProjectManager], Handler ''createProject'']"
    using assms by (rule createProject_routes)
  have run: "runRoute hours ?svc (specMiddleware ?svc ext) chain c (g, st)
             = runChain [authMiddleware ?svc [ProjectManager], createProject ?svc] c (g, st)"
    by (simp add: runRoute_def chain stepHandler_def specMiddleware_def)
  show ?thesis
  proof (cases "map_of (st_tokens st) (Token c)")
    case None
    then have "authMiddleware ?svc [ProjectManager] c (g, st)
                 = (Abort (statusOf Unauthorized) (ErrorH Unauthorized), c, g, st)"
      by (simp add: authMiddleware_def spec_VerifyToken_def)
    with run show ?thesis by simp
  next
    case (Some uid)
    show ?thesis
    proof (cases "findUser st uid")
      case None
      with Some have "authMiddleware ?svc [ProjectManager] c (g, st)
                 = (Abort (statusOf Unauthorized) (ErrorH Unauthorized), c, g, st)"
        by (simp add: authMiddleware_def spec_VerifyToken_def)
      with run show ?thesis by simp
    next
      case u: (Some u)
      from find_Some_prop [OF u [unfolded findUser_def]] have uid: "usr_ID u = uid" .
      show ?thesis
      proof (cases "usr_Role u = ProjectManager")
        case True
        with Some u have "authMiddleware ?svc [ProjectManager] c (g, st)
                 = (Silent, c\<lparr>Keys := (Keys c)(UserIDCtx \<mapsto> UUIDVal uid)\<rparr>, g, st)"
          by (simp add: authMiddleware_def spec_VerifyToken_def spec_GetUserIDFromToken_def)
        with run have "runRoute hours ?svc (specMiddleware ?svc ext) chain c (g, st)
               = runChain [createProject ?svc]
                   (c\<lparr>Keys := (Keys c)(UserIDCtx \<mapsto> UUIDVal (usr_ID u))\<rparr>) (g, st)"
          by (simp add: uid)
        with Some u True uid show ?thesis by blast
      next
        case False
        with Some u have "authMiddleware ?svc [ProjectManager] c (g, st)
                 = (Abort (statusOf Forbidden) (ErrorH Forbidden), c, g, st)"
          by (simp add: authMiddleware_def spec_VerifyToken_def)
        with run show ?thesis by simp
      qed
    qed
  qed
qed

theorem createProject_reached_only_by_project_manager_witness:
  "(''POST'', ''/api/pm/'', [AuthMiddleware [ProjectManager], Handler ''createProject'']) \<in> set routes
   \<and> runRoute (\<lambda>a b. 0)
        ((failingService (Err ''no database''))
           \<lparr>VerifyToken := spec_VerifyToken, GetUserIDFromToken := spec_GetUserIDFromToken\<rparr>)
        (specMiddleware
           ((failingService (Err ''no database''))
              \<lparr>VerifyToken := spec_VerifyToken, GetUserIDFromToken := spec_GetUserIDFromToken\<rparr>)
           (\<lambda>stp c gs. (Silent, c, gs)))
        [AuthMiddleware [ProjectManager], Handler ''createProject'']
        (sampleContext ''t3'' NoJSON) (initGlobals, sampleStore)
      = ([Abort 403 (ErrorH Forbidden)], sampleContext ''t3'' NoJSON, initGlobals, sampleStore)"
proof -
  have r: "(''POST'', ''/api/pm/'', [AuthMiddleware [ProjectManager], Handler ''createProject''])
             \<in> set routes"
    by (simp add: routes_def)
  have h: "Handler ''createProject'' \<in> set [AuthMiddleware [ProjectManager], Handler ''createProject'']"
    by simp
  have t: "map_of (st_tokens sampleStore) (Token (sampleContext ''t3'' NoJSON)) = Some 3"
    by (simp add: sampleStore_def sampleContext_def)
  have u: "findUser sampleStore 3 = Some (sampleUser 3 Student)"
    by (simp add: findUser_def sampleStore_def sampleUser_def)
  have ne: "Student \<noteq> ProjectManager"
    by (simp add: Student_def ProjectManager_def)
  have no: "\<not> (\<exists>u. map_of (st_tokens sampleStore) (Token (sampleContext ''t3'' NoJSON)) = Some (usr_ID u)
             \<and> findUser sampleStore (usr_ID u) = Some u \<and> usr_Role u = ProjectManager)"
    using t u ne by (auto simp: sampleUser_def)
  from createProject_reached_only_by_project_manager [OF r h,
         of sampleStore "sampleContext ''t3'' NoJSON" "\<lambda>a b. 0" "failingService (Err ''no database'')"
            "\<lambda>stp c gs. (Silent, c, gs)" initGlobals] no
  obtain e where e: "e = Unauthorized \<or> e = Forbidden"
    and run: "runRoute (\<lambda>a b. 0)
        ((failingService (Err ''no database''))
           \<lparr>VerifyToken := spec_VerifyToken, GetUserIDFromToken := spec_GetUserIDFromToken\<rparr>)
        (specMiddleware
           ((failingService (Err ''no database''))
              \<lparr>VerifyToken := spec_VerifyToken, GetUserIDFromToken := spec_GetUserIDFromToken\<rparr>)
           (\<lambda>stp c gs. (Silent, c, gs)))
        [AuthMiddleware [ProjectManager], Handler ''createProject'']
        (sampleContext ''t3'' NoJSON) (initGlobals, sampleStore)
      = ([Abort (statusOf e) (ErrorH e)], sampleContext ''t3'' NoJSON, initGlobals, sampleStore)"
    by blast
  have "runRoute (\<lambda>a b. 0)
        ((failingService (Err ''no database''))
           \<lparr>VerifyToken := spec_VerifyToken, GetUserIDFromToken := spec_GetUserIDFromToken\<rparr>)
        (specMiddleware
           ((failingService (Err ''no database''))
              \<lparr>VerifyToken := spec_VerifyToken, GetUserIDFromToken := spec_GetUserIDFromToken\<rparr>)
           (\<lambda>stp c gs. (Silent, c, gs)))
        [AuthMiddleware [ProjectManager], Handler ''createProject'']
        (sampleContext ''t3'' NoJSON) (initGlobals, sampleStore)
      = ([Abort 403 (ErrorH Forbidden)], sampleContext ''t3'' NoJSON, initGlobals, sampleStore)"
    using t u ne
    by (simp add: runRoute_def stepHandler_def specMiddleware_def authMiddleware_def
          spec_VerifyToken_def statusOf_def sampleUser_def)
  with r run show ?thesis by simp
qed

section \<open>Creating a project\<close>

lemma fold_max_ge: "(a::int) \<le> fold max ids a"
  by (induction ids arbitrary: a) (auto intro: order_trans [OF max.cobounded2])

lemma fold_max_mem: "x \<in> set ids \<Longrightarrow> (x::int) \<le> fold max ids a"
proof (induction ids arbitrary: a)
  case Nil
  then show ?case by simp
next
  case (Cons y ys)
  show ?case
  proof (cases "x = y")
    case True
    have "y \<le> max y a" by simp
    also have "\<dots> \<le> fold max ys (max y a)" by (rule fold_max_ge)
    finally show ?thesis using True by simp
  next
    case False
    with Cons.prems have "x \<in> set ys" by simp
    from Cons.IH [OF this] show ?thesis by simp
  qed
qed

lemma freshID_fresh: "freshID ids \<notin> set ids"
proof
  assume "freshID ids \<in> set ids"
  from fold_max_mem [OF this, of 0] show False by (simp add: freshID_def)
qed

text \<open>
  Claim C2.  After a successful run of \<^verbatim>\<open>createProject\<close> (the 201 response), on rows where
  every participant belongs to a stored project, resolving the participants of the new
  project yields exactly one row; its role is Owner and its user is the one whose id the
  request context holds under \<^verbatim>\<open>domain.UserIDCtx\<close>.
\<close>

theorem created_project_has_exactly_one_owner:
  assumes fk: "part_ProjectID ` set (st_participants st) \<subseteq> prj_ID ` set (st_projects st)"
    and run: "createProject (svc\<lparr>CreateProject := spec_CreateProject, AddParticipant := spec_AddParticipant\<rparr>)
                c (g, st) = (Reply 201 (CreatedPayload r), c', g', st')"
  shows "\<exists>uid p. Keys c UserIDCtx = Some (UUIDVal uid)
           \<and> spec_GetParticipants st' (resp_ID (cresp_ProjectResp r)) = (Inr [p], st')
           \<and> part_Role p = RoleOwner
           \<and> su_ID (part_ShortUser p) = uid"
proof -
  let ?svc = "svc\<lparr>CreateProject := spec_CreateProject, AddParticipant := spec_AddParticipant\<rparr>"
  from run obtain req where dec: "decode_CreateProjectReq (Body c) = Inr req"
    by (auto simp: createProject_def split: sum.splits)
  from run dec obtain project s1 where cp: "spec_CreateProject st req = (Inr project, s1)"
    by (auto simp: createProject_def split: sum.splits prod.splits)
  from run dec cp obtain uid where key: "Keys c UserIDCtx = Some (UUIDVal uid)"
    by (auto simp: createProject_def split: option.splits ctxval.splits)
  let ?ap = "\<lparr>ap_Role = RoleOwner, ap_UserID = uid, ap_ProjectID = prj_ID project\<rparr>"
  from run dec cp key obtain participant where
    ap: "spec_AddParticipant s1 True ?ap = (Inr participant, st')"
    and r: "r = \<lparr>cresp_ProjectResp = makeProjectResponse project,
                 cresp_ParticipantResp =
                   \<lparr>presp_ID = part_ID participant, presp_Role = part_Role participant,
                    presp_ProjectID = part_ProjectID participant,
                    presp_User = part_ShortUser participant\<rparr>\<rparr>"
    by (auto simp: createProject_def split: sum.splits prod.splits)
  from cp have pid: "prj_ID project = freshID (map prj_ID (st_projects st))"
    and s1: "s1 = st\<lparr>st_projects := st_projects st @ [project]\<rparr>"
    by (auto simp: spec_CreateProject_def Let_def split: if_splits)
  from ap obtain u where u: "findUser s1 uid = Some u"
    and p: "participant = \<lparr>part_ID = freshID (map part_ID (st_participants s1)),
                           part_Role = RoleOwner, part_ProjectID = prj_ID project,
                           part_ShortUser = shortUserOf u\<rparr>"
    and st': "st' = s1\<lparr>st_participants := st_participants s1 @ [participant]\<rparr>"
    by (auto simp: spec_AddParticipant_def Let_def split: option.splits)
  from find_Some_prop [OF u [unfolded findUser_def]] have uid: "usr_ID u = uid" .
  have old: "filter (\<lambda>q. part_ProjectID q = prj_ID project) (st_participants st) = []"
  proof -
    have "\<forall>q \<in> set (st_participants st). part_ProjectID q \<noteq> prj_ID project"
    proof
      fix q assume "q \<in> set (st_participants st)"
      with fk have "part_ProjectID q \<in> set (map prj_ID (st_projects st))" by auto
      with freshID_fresh [of "map prj_ID (st_projects st)"] pid
      show "part_ProjectID q \<noteq> prj_ID project" by metis
    qed
    then show ?thesis by (simp add: filter_empty_conv)
  qed
  have rid: "resp_ID (cresp_ProjectResp r) = prj_ID project"
    by (simp add: r makeProjectResponse_def)
  have "spec_GetParticipants st' (resp_ID (cresp_ProjectResp r)) = (Inr [participant], st')"
    using old by (simp add: spec_GetParticipants_def rid st' s1 p)
  moreover have "part_Role participant = RoleOwner" by (simp add: p)
  moreover have "su_ID (part_ShortUser participant) = uid" by (simp add: p shortUserOf_def uid)
  ultimately show ?thesis using key by blast
qed

lemma sample_createProject_run:
  "\<exists>r c' st'. createProject
       ((failingService (Err ''no database''))
          \<lparr>CreateProject := spec_CreateProject, AddParticipant := spec_AddParticipant\<rparr>)
       ((sampleContext ''t1'' (JObject (emptyObject\<lparr>j_name := Some ''gamma''\<rparr>)))
          \<lparr>Keys := [UserIDCtx \<mapsto> UUIDVal 1]\<rparr>)
       (initGlobals, sampleStore)
     = (Reply 201 (CreatedPayload r), c', initGlobals, st')"
  by (simp add: createProject_def decode_CreateProjectReq_def sampleContext_def emptyObject_def
        spec_CreateProject_def spec_AddParticipant_def Let_def findProject_def findUser_def
        findParticipant_def sampleStore_def sampleUser_def sampleProject_def freshID_def)

theorem created_project_has_exactly_one_owner_witness:
  "part_ProjectID ` set (st_participants sampleStore) \<subseteq> prj_ID ` set (st_projects sampleStore)
   \<and> (\<exists>r c' st' p.
         createProject
           ((failingService (Err ''no database''))
              \<lparr>CreateProject := spec_CreateProject, AddParticipant := spec_AddParticipant\<rparr>)
           ((sampleContext ''t1'' (JObject (emptyObject\<lparr>j_name := Some ''gamma''\<rparr>)))
              \<lparr>Keys := [UserIDCtx \<mapsto> UUIDVal 1]\<rparr>)
           (initGlobals, sampleStore)
         = (Reply 201 (CreatedPayload r), c', initGlobals, st')
       \<and> spec_GetParticipants st' (resp_ID (cresp_ProjectResp r)) = (Inr [p], st')
       \<and> part_Role p = RoleOwner
       \<and> su_ID (part_ShortUser p) = 1)"
proof -
  have fk: "part_ProjectID ` set (st_participants sampleStore)
              \<subseteq> prj_ID ` set (st_projects sampleStore)"
    by (simp add: sampleStore_def)
  from sample_createProject_run obtain r c' st' where
    run: "createProject
           ((failingService (Err ''no database''))
              \<lparr>CreateProject := spec_CreateProject, AddParticipant := spec_AddParticipant\<rparr>)
           ((sampleContext ''t1'' (JObject (emptyObject\<lparr>j_name := Some ''gamma''\<rparr>)))
              \<lparr>Keys := [UserIDCtx \<mapsto> UUIDVal 1]\<rparr>)
           (initGlobals, sampleStore)
         = (Reply 201 (CreatedPayload r), c', initGlobals, st')"
    by blast
  from created_project_has_exactly_one_owner [OF fk run]
  obtain uid p where
    "Keys ((sampleContext ''t1'' (JObject (emptyObject\<lparr>j_name := Some ''gamma''\<rparr>)))
              \<lparr>Keys := [UserIDCtx \<mapsto> UUIDVal 1]\<rparr>) UserIDCtx = Some (UUIDVal uid)"
    and "spec_GetParticipants st' (resp_ID (cresp_ProjectResp r)) = (Inr [p], st')"
    and "part_Role p = RoleOwner" and "su_ID (part_ShortUser p) = uid"
    by blast
  then have "spec_GetParticipants st' (resp_ID (cresp_ProjectResp r)) = (Inr [p], st')
       \<and> part_Role p = RoleOwner \<and> su_ID (part_ShortUser p) = 1"
    by simp
  with fk run show ?thesis by blast
qed

section \<open>Task statuses\<close>

lemma dom_TaskStatuses: "dom TaskStatuses = {''BACKLOG'', ''IN_PROGRESS'', ''REVIEW'', ''DONE''}"
  by (auto simp: TaskStatuses_def split: if_splits)

lemma known_statuses: "dom TaskStatuses = {TODO, InProgress, InReview, Done}"
  by (simp add: dom_TaskStatuses TODO_def InProgress_def InReview_def Done_def)

lemma setTaskStatus_known: "setTaskStatus t status = Inr t' \<Longrightarrow> tsk_Status t' \<in> dom TaskStatuses"
  by (auto simp: setTaskStatus_def split: option.splits)

lemma spec_taskCall_known:
  assumes "\<forall>t \<in> set rows. tsk_Status t \<in> dom TaskStatuses"
  shows "\<forall>t \<in> set (snd (spec_taskCall rows call)). tsk_Status t \<in> dom TaskStatuses"
proof (cases call)
  case (CreateTask t)
  show ?thesis
  proof (cases "setTaskStatus (t\<lparr>tsk_ID := freshID (map tsk_ID rows)\<rparr>) (tsk_Status t)")
    case (Inl e)
    then show ?thesis using assms CreateTask by simp
  next
    case (Inr t')
    from setTaskStatus_known [OF Inr] have "tsk_Status t' \<in> dom TaskStatuses" .
    then show ?thesis using assms CreateTask Inr by auto
  qed
next
  case (UpdateTask i status)
  show ?thesis
  proof (cases "find (\<lambda>q. tsk_ID q = i) rows")
    case None
    then show ?thesis using assms UpdateTask by simp
  next
    case (Some t)
    show ?thesis
    proof (cases "setTaskStatus t status")
      case (Inl e)
      then show ?thesis using assms UpdateTask Some by simp
    next
      case (Inr t')
      from setTaskStatus_known [OF Inr] have "tsk_Status t' \<in> dom TaskStatuses" .
      then show ?thesis using assms UpdateTask Some Inr by auto
    qed
  qed
next
  case (DeleteTask i)
  then show ?thesis using assms by (auto split: option.splits)
qed

lemma spec_taskCalls_known:
  "\<forall>t \<in> set rows. tsk_Status t \<in> dom TaskStatuses \<Longrightarrow>
   \<forall>t \<in> set (spec_taskCalls rows calls). tsk_Status t \<in> dom TaskStatuses"
proof (induction calls arbitrary: rows)
  case Nil
  then show ?case by simp
next
  case (Cons call calls)
  from Cons.IH [OF spec_taskCall_known [OF Cons.prems]] show ?case by simp
qed

lemma find_set_status:
  "find (\<lambda>q. tsk_ID q = i) (rows :: Task list) = Some t \<Longrightarrow>
   find (\<lambda>q. tsk_ID q = i) (map (\<lambda>q. if tsk_ID q = i then q\<lparr>tsk_Status := new\<rparr> else q) rows)
     = Some (t\<lparr>tsk_Status := new\<rparr>)"
  by (induction rows) (auto split: if_splits)

lemma TaskStatuses_legacy_keys:
  "dom TaskStatuses_legacy = {''TODO'', ''In progress'', ''In review'', ''Testing'', ''Done''}"
  by (auto simp: TaskStatuses_legacy_def split: if_splits)

text \<open>
  Claim C6.  The known status literals are exactly \<^verbatim>\<open>BACKLOG\<close>, \<^verbatim>\<open>IN_PROGRESS\<close>, \<^verbatim>\<open>REVIEW\<close> and
  \<^verbatim>\<open>DONE\<close>.  Whatever calls of the task operations have run from the empty table, every
  task's status is one of them; and for every stored task, whatever its status, an
  update to any of the four succeeds and sets it: no transition is refused.
\<close>

theorem task_status_is_known_and_unconstrained:
  "dom TaskStatuses = {TODO, InProgress, InReview, Done}
   \<and> (\<forall>calls. \<forall>t \<in> set (spec_taskCalls [] calls).
          tsk_Status t \<in> {TODO, InProgress, InReview, Done})
   \<and> (\<forall>(rows :: Task list) i t new.
          find (\<lambda>q. tsk_ID q = i) rows = Some t \<longrightarrow>
          new \<in> {TODO, InProgress, InReview, Done} \<longrightarrow>
          (\<exists>rows'. spec_taskCall rows (UpdateTask i new) = (None, rows')
                   \<and> find (\<lambda>q. tsk_ID q = i) rows' = Some (t\<lparr>tsk_Status := new\<rparr>)))"
proof -
  have a: "dom TaskStatuses = {TODO, InProgress, InReview, Done}" by (rule known_statuses)
  have b: "\<forall>calls. \<forall>t \<in> set (spec_taskCalls [] calls).
          tsk_Status t \<in> {TODO, InProgress, InReview, Done}"
    using spec_taskCalls_known [of "[]"] a by simp
  have c: "\<forall>(rows :: Task list) i t new.
          find (\<lambda>q. tsk_ID q = i) rows = Some t \<longrightarrow>
          new \<in> {TODO, InProgress, InReview, Done} \<longrightarrow>
          (\<exists>rows'. spec_taskCall rows (UpdateTask i new) = (None, rows')
                   \<and> find (\<lambda>q. tsk_ID q = i) rows' = Some (t\<lparr>tsk_Status := new\<rparr>))"
  proof (intro allI impI)
    fix rows :: "Task list" and i t new
    assume f: "find (\<lambda>q. tsk_ID q = i) rows = Some t"
      and n: "new \<in> {TODO, InProgress, InReview, Done}"
    from n a have "new \<in> dom TaskStatuses" by simp
    then have s: "setTaskStatus t new = Inr (t\<lparr>tsk_Status := new\<rparr>)"
      by (auto simp: setTaskStatus_def)
    have "spec_taskCall rows (UpdateTask i new)
            = (None, map (\<lambda>q. if tsk_ID q = i then q\<lparr>tsk_Status := new\<rparr> else q) rows)"
      using f s by simp
    with find_set_status [OF f, of new]
    show "\<exists>rows'. spec_taskCall rows (UpdateTask i new) = (None, rows')
                   \<and> find (\<lambda>q. tsk_ID q = i) rows' = Some (t\<lparr>tsk_Status := new\<rparr>)"
      by blast
  qed
  from a b c show ?thesis by blast
qed

theorem task_status_is_known_and_unconstrained_witness:
  "spec_taskCalls [] [CreateTask (sampleTask Done)] = [sampleTask Done]
   \<and> sampleTask Done \<in> set (spec_taskCalls [] [CreateTask (sampleTask Done)])
   \<and> tsk_Status (sampleTask Done) \<in> {TODO, InProgress, InReview, Done}
   \<and> find (\<lambda>q. tsk_ID q = 1) [sampleTask Done] = Some (sampleTask Done)
   \<and> TODO \<in> {TODO, InProgress, InReview, Done}
   \<and> (\<exists>rows'. spec_taskCall [sampleTask Done] (UpdateTask 1 TODO) = (None, rows')
              \<and> find (\<lambda>q. tsk_ID q = 1) rows' = Some (sampleTask TODO))"
proof -
  have r: "spec_taskCalls [] [CreateTask (sampleTask Done)] = [sampleTask Done]"
    by (simp add: setTaskStatus_def TaskStatuses_def Done_def sampleTask_def freshID_def)
  then have m: "sampleTask Done \<in> set (spec_taskCalls [] [CreateTask (sampleTask Done)])"
    by simp
  have f: "find (\<lambda>q. tsk_ID q = 1) [sampleTask Done] = Some (sampleTask Done)"
    by (simp add: sampleTask_def)
  have n: "TODO \<in> {TODO, InProgress, InReview, Done}" by simp
  have e: "(sampleTask Done)\<lparr>tsk_Status := TODO\<rparr> = sampleTask TODO"
    by (simp add: sampleTask_def)
  from task_status_is_known_and_unconstrained m
  have k: "tsk_Status (sampleTask Done) \<in> {TODO, InProgress, InReview, Done}" by blast
  from task_status_is_known_and_unconstrained f n
  have "\<exists>rows'. spec_taskCall [sampleTask Done] (UpdateTask 1 TODO) = (None, rows')
              \<and> find (\<lambda>q. tsk_ID q = 1) rows' = Some ((sampleTask Done)\<lparr>tsk_Status := TODO\<rparr>)"
    by blast
  with e r m k f n show ?thesis by simp
qed

section \<open>What a response shows of a user\<close>

lemma keysOf_VArr_map: "(\<And>x. k \<notin> set (keysOf (f x))) \<Longrightarrow> k \<notin> set (keysOf (VArr (map f xs)))"
  by (induction xs) auto

lemma keysOf_VObj_append:
  "set (keysOf (VObj (xs @ ys))) = set (keysOf (VObj xs)) \<union> set (keysOf (VObj ys))"
  by simp

lemma keys_ShortUser: "''HashedPassword'' \<notin> set (keysOf (enc_ShortUser u))"
  by (simp add: enc_ShortUser_def)

lemma keys_ParticipantResp: "''HashedPassword'' \<notin> set (keysOf (enc_ParticipantResp r))"
  using keys_ShortUser by (simp add: enc_ParticipantResp_def)

lemma keys_Participant: "''HashedPassword'' \<notin> set (keysOf (enc_Participant r))"
  using keys_ShortUser by (simp add: enc_Participant_def)

lemma keys_ShortTaskResp: "''HashedPassword'' \<notin> set (keysOf (enc_ShortTaskResp r))"
  by (simp add: enc_ShortTaskResp_def)

lemma keys_ShortProjectResp:
  "''HashedPassword'' \<notin> set (keysOf (VObj (members_ShortProjectResp r)))"
  by (simp add: members_ShortProjectResp_def)

lemma keys_ProjectResp: "''HashedPassword'' \<notin> set (keysOf (VObj (members_ProjectResp r)))"
  by (simp add: members_ProjectResp_def members_ShortProjectResp_def)

lemma keys_CreateProjectResp: "''HashedPassword'' \<notin> set (keysOf (enc_CreateProjectResp r))"
  unfolding enc_CreateProjectResp_def keysOf_VObj_append
  using keys_ProjectResp keys_ParticipantResp by simp

lemma keys_projectWithParticipantsResp:
  "''HashedPassword'' \<notin> set (keysOf (enc_projectWithParticipantsResp r))"
  unfolding enc_projectWithParticipantsResp_def keysOf_VObj_append
  using keys_ProjectResp
    keysOf_VArr_map [of "''HashedPassword''" enc_ParticipantResp, OF keys_ParticipantResp]
  by simp

lemma keys_projectInfoResp: "''HashedPassword'' \<notin> set (keysOf (enc_projectInfoResp r))"
  unfolding enc_projectInfoResp_def keysOf_VObj_append
  using keys_ProjectResp
    keysOf_VArr_map [of "''HashedPassword''" enc_Participant, OF keys_Participant]
    keysOf_VArr_map [of "''HashedPassword''" enc_ShortTaskResp, OF keys_ShortTaskResp]
  by simp

lemma keys_commitsInfoResp: "''HashedPassword'' \<notin> set (keysOf (enc_commitsInfoResp r))"
  using keys_ShortUser by (simp add: enc_commitsInfoResp_def)

lemma keys_encode:
  assumes "errField \<noteq> ''HashedPassword''"
  shows "''HashedPassword'' \<notin> set (keysOf (encode errField p))"
proof (cases p)
  case NullPayload
  then show ?thesis by (simp add: encode_def)
next
  case (ErrorH e)
  then show ?thesis using assms by (simp add: encode_def)
next
  case (ErrValue e)
  then show ?thesis by (simp add: encode_def split: err.splits)
next
  case (CreatedPayload r)
  then show ?thesis using keys_CreateProjectResp by (simp add: encode_def)
next
  case (ProjectPayload r)
  then show ?thesis using keys_projectWithParticipantsResp by (simp add: encode_def)
next
  case (ProjectsPayload rs)
  then show ?thesis
    using keysOf_VArr_map [of "''HashedPassword''" enc_projectWithParticipantsResp,
            OF keys_projectWithParticipantsResp]
    by (simp add: encode_def)
next
  case (ProjectInfoPayload r)
  then show ?thesis using keys_projectInfoResp by (simp add: encode_def)
next
  case (CommitsPayload rs)
  then show ?thesis
    using keysOf_VArr_map [of "''HashedPassword''" enc_commitsInfoResp, OF keys_commitsInfoResp]
    by (simp add: encode_def)
qed

lemma sameButHashes_fields:
  assumes "sameButHashes st st'"
  shows "st_projects st = st_projects st'" and "st_participants st = st_participants st'"
    and "st_tokens st = st_tokens st'"
    and "map eraseHash (st_users st) = map eraseHash (st_users st')"
proof -
  from assms have e: "eraseHashes st = eraseHashes st'" by (simp add: sameButHashes_def)
  from arg_cong [OF e, of st_projects] show "st_projects st = st_projects st'"
    by (simp add: eraseHashes_def)
  from arg_cong [OF e, of st_participants] show "st_participants st = st_participants st'"
    by (simp add: eraseHashes_def)
  from arg_cong [OF e, of st_tokens] show "st_tokens st = st_tokens st'"
    by (simp add: eraseHashes_def)
  from arg_cong [OF e, of st_users] show "map eraseHash (st_users st) = map eraseHash (st_users st')"
    by (simp add: eraseHashes_def)
qed

lemma sameButHashes_refl: "sameButHashes st st"
  by (simp add: sameButHashes_def)

lemma sameButHashes_projects:
  "sameButHashes st st' \<Longrightarrow> sameButHashes (st\<lparr>st_projects := ps\<rparr>) (st'\<lparr>st_projects := ps\<rparr>)"
  using sameButHashes_fields [of st st']
  by (cases st, cases st') (simp add: sameButHashes_def eraseHashes_def)

lemma sameButHashes_participants:
  "sameButHashes st st' \<Longrightarrow>
   sameButHashes (st\<lparr>st_participants := ps\<rparr>) (st'\<lparr>st_participants := ps\<rparr>)"
  using sameButHashes_fields [of st st']
  by (cases st, cases st') (simp add: sameButHashes_def eraseHashes_def)

lemma find_user_erased:
  "map eraseHash xs = map eraseHash ys \<Longrightarrow>
   map_option eraseHash (find (\<lambda>u. usr_ID u = uid) xs)
     = map_option eraseHash (find (\<lambda>u. usr_ID u = uid) ys)"
proof (induction xs arbitrary: ys)
  case Nil
  then show ?case by simp
next
  case (Cons x xs)
  then obtain y ys' where ys: "ys = y # ys'" and xy: "eraseHash x = eraseHash y"
    and rest: "map eraseHash xs = map eraseHash ys'"
    by (cases ys) auto
  from arg_cong [OF xy, of usr_ID] have "usr_ID x = usr_ID y" by (simp add: eraseHash_def)
  with Cons.IH [OF rest] xy ys show ?case by simp
qed

lemma shortUserOf_erased: "shortUserOf (eraseHash u) = shortUserOf u"
  by (simp add: shortUserOf_def eraseHash_def)

lemma findUser_alike:
  assumes "sameButHashes st st'"
  shows "map_option shortUserOf (findUser st uid) = map_option shortUserOf (findUser st' uid)"
proof -
  from find_user_erased [OF sameButHashes_fields(4) [OF assms], of uid]
  have "map_option eraseHash (findUser st uid) = map_option eraseHash (findUser st' uid)"
    by (simp add: findUser_def)
  then have "map_option shortUserOf (map_option eraseHash (findUser st uid))
               = map_option shortUserOf (map_option eraseHash (findUser st' uid))"
    by simp
  then show ?thesis by (simp add: option.map_comp comp_def shortUserOf_erased)
qed

lemma hashBlindD:
  assumes "hashBlind operation" and "sameButHashes st st'"
  obtains r s1 s1' where "operation st a = (r, s1)" and "operation st' a = (r, s1')"
    and "sameButHashes s1 s1'"
proof -
  from assms have "fst (operation st a) = fst (operation st' a)"
    and "sameButHashes (snd (operation st a)) (snd (operation st' a))"
    by (auto simp: hashBlind_def)
  then show ?thesis
    using that [of "fst (operation st a)" "snd (operation st a)" "snd (operation st' a)"]
    by (simp add: prod_eq_iff)
qed

lemma spec_CreateProject_blind: "hashBlind spec_CreateProject"
  unfolding hashBlind_def
proof (intro allI impI)
  fix st st' :: Store and a
  assume s: "sameButHashes st st'"
  note f = sameButHashes_fields [OF s]
  show "fst (spec_CreateProject st a) = fst (spec_CreateProject st' a)
        \<and> sameButHashes (snd (spec_CreateProject st a)) (snd (spec_CreateProject st' a))"
    using s f(1) sameButHashes_projects [OF s]
    by (simp add: spec_CreateProject_def Let_def)
qed

lemma spec_UpdateProject_blind: "hashBlind (spec_UpdateProject due)"
  unfolding hashBlind_def
proof (intro allI impI)
  fix st st' :: Store and a
  assume s: "sameButHashes st st'"
  note f = sameButHashes_fields [OF s]
  show "fst (spec_UpdateProject due st a) = fst (spec_UpdateProject due st' a)
        \<and> sameButHashes (snd (spec_UpdateProject due st a)) (snd (spec_UpdateProject due st' a))"
    using s f(1) sameButHashes_projects [OF s]
    by (simp add: spec_UpdateProject_def findProject_def split: option.splits)
qed

lemma spec_GetParticipants_blind: "hashBlind spec_GetParticipants"
  unfolding hashBlind_def
proof (intro allI impI)
  fix st st' :: Store and a
  assume s: "sameButHashes st st'"
  note f = sameButHashes_fields [OF s]
  show "fst (spec_GetParticipants st a) = fst (spec_GetParticipants st' a)
        \<and> sameButHashes (snd (spec_GetParticipants st a)) (snd (spec_GetParticipants st' a))"
    using s f(2) by (simp add: spec_GetParticipants_def)
qed

lemma spec_AddParticipant_blind:
  "hashBlind (\<lambda>st x. spec_AddParticipant st (fst x) (snd x))"
  unfolding hashBlind_def
proof (intro allI impI)
  fix st st' :: Store and a :: "bool \<times> AddedParticipant"
  assume s: "sameButHashes st st'"
  note f = sameButHashes_fields [OF s]
  note u = findUser_alike [OF s, of "ap_UserID (snd a)"]
  have p: "findProject st (ap_ProjectID (snd a)) = findProject st' (ap_ProjectID (snd a))"
    using f(1) by (simp add: findProject_def)
  have q: "findParticipant st (ap_UserID (snd a)) (ap_ProjectID (snd a))
             = findParticipant st' (ap_UserID (snd a)) (ap_ProjectID (snd a))"
    using f(2) by (simp add: findParticipant_def)
  show "fst (spec_AddParticipant st (fst a) (snd a)) = fst (spec_AddParticipant st' (fst a) (snd a))
        \<and> sameButHashes (snd (spec_AddParticipant st (fst a) (snd a)))
            (snd (spec_AddParticipant st' (fst a) (snd a)))"
  proof (cases "findUser st (ap_UserID (snd a))")
    case None
    with u have "findUser st' (ap_UserID (snd a)) = None" by simp
    with None s p show ?thesis by (simp add: spec_AddParticipant_def split: option.splits)
  next
    case (Some x)
    with u obtain y where y: "findUser st' (ap_UserID (snd a)) = Some y"
      and xy: "shortUserOf x = shortUserOf y"
      by (cases "findUser st' (ap_UserID (snd a))") auto
    show ?thesis
      using Some y xy s p q f(2) sameButHashes_participants [OF s]
      by (simp add: spec_AddParticipant_def Let_def split: option.splits)
  qed
qed

lemma createProject_blind:
  assumes cp: "hashBlind (CreateProject svc)"
    and ap: "hashBlind (\<lambda>st x. AddParticipant svc st (fst x) (snd x))"
    and same: "sameButHashes st st'"
  shows "fst (createProject svc c (g, st)) = fst (createProject svc c (g, st'))
       \<and> sameButHashes (snd (snd (snd (createProject svc c (g, st)))))
            (snd (snd (snd (createProject svc c (g, st')))))"
proof (cases "decode_CreateProjectReq (Body c)")
  case (Inl e)
  then show ?thesis using same by (simp add: createProject_def)
next
  case (Inr req)
  from hashBlindD [OF cp same, of req] obtain r s1 s1' where
    1: "CreateProject svc st req = (r, s1)" "CreateProject svc st' req = (r, s1')"
    and s1: "sameButHashes s1 s1'" by blast
  show ?thesis
  proof (cases r)
    case (Inl e)
    then show ?thesis using Inr 1 s1 by (simp add: createProject_def)
  next
    case project: (Inr project)
    show ?thesis
    proof (cases "Keys c UserIDCtx")
      case None
      then show ?thesis using Inr 1 s1 project by (simp add: createProject_def)
    next
      case (Some v)
      show ?thesis
      proof (cases v)
        case (UUIDVal uid)
        from hashBlindD [OF ap s1,
               of "(True, \<lparr>ap_Role = RoleOwner, ap_UserID = uid, ap_ProjectID = prj_ID project\<rparr>)"]
        obtain r2 s2 s2' where
          2: "AddParticipant svc s1 True
                \<lparr>ap_Role = RoleOwner, ap_UserID = uid, ap_ProjectID = prj_ID project\<rparr> = (r2, s2)"
             "AddParticipant svc s1' True
                \<lparr>ap_Role = RoleOwner, ap_UserID = uid, ap_ProjectID = prj_ID project\<rparr> = (r2, s2')"
          and s2: "sameButHashes s2 s2'" by auto
        show ?thesis using Inr 1 project Some UUIDVal 2 s2
          by (cases r2) (simp_all add: createProject_def)
      next
        case (IntVal n)
        then show ?thesis using Inr 1 s1 project Some by (simp add: createProject_def)
      next
        case (IntPtrVal n)
        then show ?thesis using Inr 1 s1 project Some by (simp add: createProject_def)
      qed
    qed
  qed
qed

lemma getProjects_loop_blind:
  assumes gp: "hashBlind (GetParticipants svc)"
  shows "sameButHashes s s' \<Longrightarrow>
         fst (getProjects_loop svc s projects acc) = fst (getProjects_loop svc s' projects acc)
         \<and> sameButHashes (snd (getProjects_loop svc s projects acc))
              (snd (getProjects_loop svc s' projects acc))"
proof (induction projects arbitrary: s s' acc)
  case Nil
  then show ?case by simp
next
  case (Cons v vs)
  from hashBlindD [OF gp Cons.prems, of "prj_ID v"] obtain r s1 s1' where
    1: "GetParticipants svc s (prj_ID v) = (r, s1)" "GetParticipants svc s' (prj_ID v) = (r, s1')"
    and s1: "sameButHashes s1 s1'" by blast
  show ?case
  proof (cases r)
    case (Inl e)
    then show ?thesis using 1 s1 by simp
  next
    case (Inr participants)
    then show ?thesis using 1 Cons.IH [OF s1] by simp
  qed
qed

lemma getProjects_blind:
  assumes gs: "hashBlind (GetProjects svc)" and gp: "hashBlind (GetParticipants svc)"
    and same: "sameButHashes st st'"
  shows "fst (getProjects svc c (g, st)) = fst (getProjects svc c (g, st'))
       \<and> sameButHashes (snd (snd (snd (getProjects svc c (g, st)))))
            (snd (snd (snd (getProjects svc c (g, st')))))"
proof -
  from hashBlindD [OF gs same, of "\<lparr>gpr_SearchText = Query c ''searchParam''\<rparr>"]
  obtain r s1 s1' where
    1: "GetProjects svc st \<lparr>gpr_SearchText = Query c ''searchParam''\<rparr> = (r, s1)"
       "GetProjects svc st' \<lparr>gpr_SearchText = Query c ''searchParam''\<rparr> = (r, s1')"
    and s1: "sameButHashes s1 s1'" by blast
  show ?thesis
  proof (cases r)
    case (Inl e)
    then show ?thesis using 1 s1 by (simp add: getProjects_def)
  next
    case (Inr projects)
    from getProjects_loop_blind [OF gp s1, of projects "[]"]
    obtain r2 s2 s2' where
      2: "getProjects_loop svc s1 projects [] = (r2, s2)"
         "getProjects_loop svc s1' projects [] = (r2, s2')"
      and s2: "sameButHashes s2 s2'"
      by (metis prod.collapse)
    show ?thesis using 1 Inr 2 s2 by (cases r2) (simp_all add: getProjects_def)
  qed
qed

lemma updateProject_blind:
  assumes up: "hashBlind (UpdateProject svc)" and gp: "hashBlind (GetParticipants svc)"
    and same: "sameButHashes st st'"
  shows "fst (updateProject svc c (g, st)) = fst (updateProject svc c (g, st'))
       \<and> sameButHashes (snd (snd (snd (updateProject svc c (g, st)))))
            (snd (snd (snd (updateProject svc c (g, st')))))"
proof -
  from hashBlindD [OF up same, of "updatedProject g"] obtain r s1 s1' where
    1: "UpdateProject svc st (updatedProject g) = (r, s1)"
       "UpdateProject svc st' (updatedProject g) = (r, s1')"
    and s1: "sameButHashes s1 s1'" by blast
  show ?thesis
  proof (cases r)
    case (Inl e)
    then show ?thesis using 1 s1 by (simp add: updateProject_def)
  next
    case (Inr project)
    from hashBlindD [OF gp s1, of "prj_ID project"] obtain r2 s2 s2' where
      2: "GetParticipants svc s1 (prj_ID project) = (r2, s2)"
         "GetParticipants svc s1' (prj_ID project) = (r2, s2')"
      and s2: "sameButHashes s2 s2'" by blast
    show ?thesis using 1 Inr 2 s2 by (cases r2) (simp_all add: updateProject_def)
  qed
qed

lemma deleteProject_blind:
  assumes dp: "hashBlind (DeleteProject svc)" and same: "sameButHashes st st'"
  shows "fst (deleteProject svc c (g, st)) = fst (deleteProject svc c (g, st'))
       \<and> sameButHashes (snd (snd (snd (deleteProject svc c (g, st)))))
            (snd (snd (snd (deleteProject svc c (g, st')))))"
proof (cases "deletedProjectID g")
  case None
  then show ?thesis using same by (simp add: deleteProject_def)
next
  case (Some pid)
  from hashBlindD [OF dp same, of pid] obtain r s1 s1' where
    1: "DeleteProject svc st pid = (r, s1)" "DeleteProject svc st' pid = (r, s1')"
    and s1: "sameButHashes s1 s1'" by blast
  show ?thesis using Some 1 s1 by (cases r) (simp_all add: deleteProject_def)
qed

lemma sendProjectInfoResponse_blind:
  assumes gi: "hashBlind (GetProjectInfo svc)" and same: "sameButHashes st st'"
  shows "fst (sendProjectInfoResponse svc pid c (g, st)) = fst (sendProjectInfoResponse svc pid c (g, st'))
       \<and> sameButHashes (snd (snd (snd (sendProjectInfoResponse svc pid c (g, st)))))
            (snd (snd (snd (sendProjectInfoResponse svc pid c (g, st')))))"
proof -
  from hashBlindD [OF gi same, of pid] obtain r s1 s1' where
    1: "GetProjectInfo svc st pid = (r, s1)" "GetProjectInfo svc st' pid = (r, s1')"
    and s1: "sameButHashes s1 s1'" by blast
  show ?thesis using 1 s1 by (cases r) (simp_all add: sendProjectInfoResponse_def)
qed

lemma getProjectInfo_blind:
  assumes gi: "hashBlind (GetProjectInfo svc)" and same: "sameButHashes st st'"
  shows "fst (getProjectInfo svc c (g, st)) = fst (getProjectInfo svc c (g, st'))
       \<and> sameButHashes (snd (snd (snd (getProjectInfo svc c (g, st)))))
            (snd (snd (snd (getProjectInfo svc c (g, st')))))"
proof (cases "Atoi (Param c ''projectId'')")
  case (Inl e)
  then show ?thesis using same by (simp add: getProjectInfo_def)
next
  case (Inr pid)
  then show ?thesis using sendProjectInfoResponse_blind [OF gi same]
    by (simp add: getProjectInfo_def)
qed

lemma getProjectCommits_blind:
  assumes gc: "hashBlind (GetProjectCommits svc)" and same: "sameButHashes st st'"
  shows "fst (getProjectCommits hours svc c (g, st)) = fst (getProjectCommits hours svc c (g, st'))
       \<and> sameButHashes (snd (snd (snd (getProjectCommits hours svc c (g, st)))))
            (snd (snd (snd (getProjectCommits hours svc c (g, st')))))"
proof (cases "Atoi (Param c ''projectId'')")
  case (Inl e)
  then show ?thesis using same by (simp add: getProjectCommits_def)
next
  case (Inr pid)
  from hashBlindD [OF gc same, of pid] obtain r s1 s1' where
    1: "GetProjectCommits svc st pid = (r, s1)" "GetProjectCommits svc st' pid = (r, s1')"
    and s1: "sameButHashes s1 s1'" by blast
  show ?thesis using Inr 1 s1 by (cases r) (simp_all add: getProjectCommits_def)
qed

lemma parseBodyToUpdatedProject_blind:
  assumes same: "sameButHashes st st'"
  shows "fst (parseBodyToUpdatedProject svc c (g, st)) = fst (parseBodyToUpdatedProject svc c (g, st'))
       \<and> sameButHashes (snd (snd (snd (parseBodyToUpdatedProject svc c (g, st)))))
            (snd (snd (snd (parseBodyToUpdatedProject svc c (g, st')))))"
  using same by (simp add: parseBodyToUpdatedProject_def split: prod.splits option.splits)

lemma parseBodyToDeletedProject_blind:
  assumes same: "sameButHashes st st'"
  shows "fst (parseBodyToDeletedProject svc c (g, st)) = fst (parseBodyToDeletedProject svc c (g, st'))
       \<and> sameButHashes (snd (snd (snd (parseBodyToDeletedProject svc c (g, st)))))
            (snd (snd (snd (parseBodyToDeletedProject svc c (g, st')))))"
  using same by (simp add: parseBodyToDeletedProject_def split: sum.splits)

text \<open>
  Claim C9.  A response of the project endpoints shows nothing of a hashed password.
  On two states of the persistence layer that differ only in the \<^verbatim>\<open>HashedPassword\<close> of
  users, every handler of \<^verbatim>\<open>project.go\<close> writes the same response and leaves states that
  again differ only there: with \<^verbatim>\<open>CreateProject\<close>, \<^verbatim>\<open>UpdateProject\<close>, \<^verbatim>\<open>AddParticipant\<close> and
  \<^verbatim>\<open>GetParticipants\<close> as modelled from the specification, and the other four operations
  that the handlers call blind to the hashes.  And no payload has a member named
  \<^verbatim>\<open>HashedPassword\<close>, at any depth, as long as the key of an error object is not that name.
\<close>

theorem responses_do_not_show_hashed_passwords:
  assumes rest: "hashBlind (DeleteProject svc)" "hashBlind (GetProjects svc)"
      "hashBlind (GetProjectInfo svc)" "hashBlind (GetProjectCommits svc)"
    and same: "sameButHashes st st'"
    and key: "errField \<noteq> ''HashedPassword''"
  shows "\<forall>h \<in> set (projectHandlers hours
                      (svc\<lparr>CreateProject := spec_CreateProject,
                           UpdateProject := spec_UpdateProject due,
                           AddParticipant := spec_AddParticipant,
                           GetParticipants := spec_GetParticipants\<rparr>)).
           fst (h c (g, st)) = fst (h c (g, st'))
           \<and> sameButHashes (snd (snd (snd (h c (g, st))))) (snd (snd (snd (h c (g, st')))))
           \<and> (\<forall>p \<in> set (payloadsOf [fst (h c (g, st))]).
                 ''HashedPassword'' \<notin> set (keysOf (encode errField p)))"
proof -
  let ?svc = "svc\<lparr>CreateProject := spec_CreateProject,
                   UpdateProject := spec_UpdateProject due,
                   AddParticipant := spec_AddParticipant,
                   GetParticipants := spec_GetParticipants\<rparr>"
  have cp: "hashBlind (CreateProject ?svc)" using spec_CreateProject_blind by simp
  have up: "hashBlind (UpdateProject ?svc)" using spec_UpdateProject_blind by simp
  have ap: "hashBlind (\<lambda>st x. AddParticipant ?svc st (fst x) (snd x))"
    using spec_AddParticipant_blind by simp
  have gp: "hashBlind (GetParticipants ?svc)" using spec_GetParticipants_blind by simp
  have dp: "hashBlind (DeleteProject ?svc)" using rest(1) by simp
  have gs: "hashBlind (GetProjects ?svc)" using rest(2) by simp
  have gi: "hashBlind (GetProjectInfo ?svc)" using rest(3) by simp
  have gc: "hashBlind (GetProjectCommits ?svc)" using rest(4) by simp
  note blind =
    createProject_blind [OF cp ap same, of c g]
    getProjects_blind [OF gs gp same, of c g]
    parseBodyToUpdatedProject_blind [OF same, of ?svc c g]
    updateProject_blind [OF up gp same, of c g]
    parseBodyToDeletedProject_blind [OF same, of ?svc c g]
    deleteProject_blind [OF dp same, of c g]
    getProjectInfo_blind [OF gi same, of c g]
    getProjectCommits_blind [OF gc same, of hours c g]
  have b: "\<forall>h \<in> set (projectHandlers hours ?svc).
             fst (h c (g, st)) = fst (h c (g, st'))
             \<and> sameButHashes (snd (snd (snd (h c (g, st))))) (snd (snd (snd (h c (g, st')))))"
    unfolding projectHandlers_def using blind by simp
  have keys: "\<And>r. \<forall>p \<in> set (payloadsOf [r]).
                 ''HashedPassword'' \<notin> set (keysOf (encode errField p))"
    using keys_encode [OF key] by blast
  from b keys show ?thesis by blast
qed

theorem responses_do_not_show_hashed_passwords_witness:
  "sameButHashes sampleStore
     (sampleStore\<lparr>st_users := map (\<lambda>u. u\<lparr>usr_HashedPassword := ''$2a$10$other''\<rparr>)
                                (st_users sampleStore)\<rparr>)
   \<and> ''error'' \<noteq> ''HashedPassword''
   \<and> fst (createProject
            ((failingService (Err ''no database''))
               \<lparr>CreateProject := spec_CreateProject,
                UpdateProject := spec_UpdateProject sparseDue,
                AddParticipant := spec_AddParticipant,
                GetParticipants := spec_GetParticipants\<rparr>)
            ((sampleContext ''t1'' (JObject (emptyObject\<lparr>j_name := Some ''gamma''\<rparr>)))
               \<lparr>Keys := [UserIDCtx \<mapsto> UUIDVal 1]\<rparr>)
            (initGlobals, sampleStore))
     = fst (createProject
            ((failingService (Err ''no database''))
               \<lparr>CreateProject := spec_CreateProject,
                UpdateProject := spec_UpdateProject sparseDue,
                AddParticipant := spec_AddParticipant,
                GetParticipants := spec_GetParticipants\<rparr>)
            ((sampleContext ''t1'' (JObject (emptyObject\<lparr>j_name := Some ''gamma''\<rparr>)))
               \<lparr>Keys := [UserIDCtx \<mapsto> UUIDVal 1]\<rparr>)
            (initGlobals,
             sampleStore\<lparr>st_users := map (\<lambda>u. u\<lparr>usr_HashedPassword := ''$2a$10$other''\<rparr>)
                                        (st_users sampleStore)\<rparr>))"
proof -
  let ?base = "failingService (Err ''no database'') :: Store Service"
  let ?service = "?base\<lparr>CreateProject := spec_CreateProject,
                UpdateProject := spec_UpdateProject sparseDue,
                AddParticipant := spec_AddParticipant,
                GetParticipants := spec_GetParticipants\<rparr>"
  let ?st' = "sampleStore\<lparr>st_users := map (\<lambda>u. u\<lparr>usr_HashedPassword := ''$2a$10$other''\<rparr>)
                                        (st_users sampleStore)\<rparr>"
  let ?c = "(sampleContext ''t1'' (JObject (emptyObject\<lparr>j_name := Some ''gamma''\<rparr>)))
               \<lparr>Keys := [UserIDCtx \<mapsto> UUIDVal 1]\<rparr>"
  have same: "sameButHashes sampleStore ?st'"
    by (simp add: sameButHashes_def eraseHashes_def eraseHash_def sampleStore_def)
  have key: "''error'' \<noteq> ''HashedPassword''" by simp
  have rest: "hashBlind (DeleteProject ?base)" "hashBlind (GetProjects ?base)"
    "hashBlind (GetProjectInfo ?base)" "hashBlind (GetProjectCommits ?base)"
    by (simp_all add: hashBlind_def failingService_def)
  have mem: "createProject ?service \<in> set (projectHandlers (\<lambda>a b. 0) ?service)"
    by (simp add: projectHandlers_def)
  note all = responses_do_not_show_hashed_passwords [OF rest same key,
         where hours = "\<lambda>a b. 0" and due = sparseDue and c = ?c and g = initGlobals]
  have "fst (createProject ?service ?c (initGlobals, sampleStore))
          = fst (createProject ?service ?c (initGlobals, ?st'))"
    using all mem by blast
  with same key show ?thesis by blast
qed

section \<open>Updating a project\<close>

lemma find_patched:
  assumes "\<And>q. prj_ID (f q) = prj_ID q"
  shows "find (\<lambda>q. prj_ID q = i) (map (\<lambda>q. if prj_ID q = i then f q else q) xs)
           = map_option f (find (\<lambda>q. prj_ID q = i) xs)"
  by (induction xs) (auto simp: assms)

lemma patchProject_ID: "prj_ID (patchProject due req p) = prj_ID p"
  by (simp add: patchProject_def)

lemma spec_UpdateProject_found:
  assumes "findProject st (ureq_ID req) = Some p"
  shows "spec_UpdateProject due st (Some req)
           = (Inr (patchProject due req p),
              st\<lparr>st_projects :=
                   map (\<lambda>q. if prj_ID q = ureq_ID req then patchProject due req q else q)
                     (st_projects st)\<rparr>)"
    and "findProject
           (st\<lparr>st_projects :=
                 map (\<lambda>q. if prj_ID q = ureq_ID req then patchProject due req q else q)
                   (st_projects st)\<rparr>) (ureq_ID req)
           = Some (patchProject due req p)"
  using assms find_patched [of "patchProject due req" "ureq_ID req" "st_projects st", OF patchProject_ID]
  by (simp_all add: spec_UpdateProject_def findProject_def)

lemma patchProject_sparseDue_again:
  "patchProject sparseDue req (patchProject sparseDue req q) = patchProject sparseDue req q"
  by (simp add: patchProject_def sparseDue_def split: option.splits)

lemma patch_rows_again:
  "map (\<lambda>q. if prj_ID q = i then patchProject sparseDue req q else q)
     (map (\<lambda>q. if prj_ID q = i then patchProject sparseDue req q else q) rows)
   = map (\<lambda>q. if prj_ID q = i then patchProject sparseDue req q else q) rows"
  by (induction rows) (simp_all add: patchProject_ID patchProject_sparseDue_again)

lemma update_chain:
  assumes dec: "decode_UpdateProjectReq (Body c) = (req, None)"
    and found: "findProject st (ureq_ID req) = Some p"
  shows "runChain
           [parseBodyToUpdatedProject
              (svc\<lparr>UpdateProject := spec_UpdateProject due, GetParticipants := spec_GetParticipants\<rparr>),
            updateProject
              (svc\<lparr>UpdateProject := spec_UpdateProject due, GetParticipants := spec_GetParticipants\<rparr>)]
           c (g, st)
         = ([Reply 200
               (ProjectPayload
                  \<lparr>pwp_ProjectResp = makeProjectResponse (patchProject due req p),
                   pwp_Participants =
                     makeParticipantResponses
                       (filter (\<lambda>q. part_ProjectID q = prj_ID p) (st_participants st))\<rparr>)],
            (readBody c)\<lparr>Keys := (Keys c)(ProjectIDCtx \<mapsto> IntVal (ureq_ID req))\<rparr>,
            g\<lparr>updatedProject := Some req\<rparr>,
            st\<lparr>st_projects :=
                 map (\<lambda>q. if prj_ID q = ureq_ID req then patchProject due req q else q)
                   (st_projects st)\<rparr>)"
  using dec spec_UpdateProject_found(1) [OF found, of due]
  by (simp add: parseBodyToUpdatedProject_def updateProject_def spec_GetParticipants_def
        patchProject_ID)

text \<open>
  Claim C1.  \<^verbatim>\<open>UpdateProject\<close> is a sparse patch.  For every request body that decodes and
  every stored project that it names, the handlers \<^verbatim>\<open>parseBodyToUpdatedProject\<close> and
  \<^verbatim>\<open>updateProject\<close> answer with the patched project, which is also what a later read
  finds.  Each field that the body omits keeps its stored value: the name, the
  description, the avatar, the report link and name, the repository, and the due date.
  Each field that the body gives is overwritten with the value given; a due date given
  as the zero time is an omitted one.  Repeating the same request gives the same response
  and leaves the same state.
\<close>

theorem updateProject_is_sparse_patch:
  assumes body: "Body c = JObject obj"
    and dec: "decode_UpdateProjectReq (Body c) = (req, None)"
    and found: "findProject st (ureq_ID req) = Some p"
  shows "\<exists>p' participants c' g' st'.
           runChain
             [parseBodyToUpdatedProject
                (svc\<lparr>UpdateProject := spec_UpdateProject sparseDue,
                     GetParticipants := spec_GetParticipants\<rparr>),
              updateProject
                (svc\<lparr>UpdateProject := spec_UpdateProject sparseDue,
                     GetParticipants := spec_GetParticipants\<rparr>)]
             c (g, st)
           = ([Reply 200
                 (ProjectPayload
                    \<lparr>pwp_ProjectResp = makeProjectResponse p', pwp_Participants = participants\<rparr>)],
              c', g', st')
         \<and> findProject st' (prj_ID p) = Some p'
         \<and> prj_ID p' = prj_ID p
         \<and> (case j_name obj of None \<Rightarrow> prj_Name p' = prj_Name p | Some v \<Rightarrow> prj_Name p' = v)
         \<and> (case j_description obj of None \<Rightarrow> prj_Description p' = prj_Description p
             | Some v \<Rightarrow> ns_String (prj_Description p') = v)
         \<and> (case j_avatar obj of None \<Rightarrow> prj_PhotoURL p' = prj_PhotoURL p
             | Some v \<Rightarrow> ns_String (prj_PhotoURL p') = v)
         \<and> (case j_reportUrl obj of None \<Rightarrow> prj_ReportURL p' = prj_ReportURL p
             | Some v \<Rightarrow> ns_String (prj_ReportURL p') = v)
         \<and> (case j_reportName obj of None \<Rightarrow> prj_ReportName p' = prj_ReportName p
             | Some v \<Rightarrow> ns_String (prj_ReportName p') = v)
         \<and> (case j_repo obj of None \<Rightarrow> prj_RepoURL p' = prj_RepoURL p
             | Some v \<Rightarrow> ns_String (prj_RepoURL p') = v)
         \<and> (case j_dueDate obj of None \<Rightarrow> prj_ActiveTo p' = prj_ActiveTo p
             | Some t \<Rightarrow> prj_ActiveTo p' = (if t = zeroTime then prj_ActiveTo p else t))
         \<and> runChain
             [parseBodyToUpdatedProject
                (svc\<lparr>UpdateProject := spec_UpdateProject sparseDue,
                     GetParticipants := spec_GetParticipants\<rparr>),
              updateProject
                (svc\<lparr>UpdateProject := spec_UpdateProject sparseDue,
                     GetParticipants := spec_GetParticipants\<rparr>)]
             c (g', st')
           = ([Reply 200
                 (ProjectPayload
                    \<lparr>pwp_ProjectResp = makeProjectResponse p', pwp_Participants = participants\<rparr>)],
              c', g', st')"
proof -
  let ?p' = "patchProject sparseDue req p"
  let ?st' = "st\<lparr>st_projects :=
                   map (\<lambda>q. if prj_ID q = ureq_ID req then patchProject sparseDue req q else q)
                     (st_projects st)\<rparr>"
  let ?g' = "g\<lparr>updatedProject := Some req\<rparr>"
  have pid: "prj_ID p = ureq_ID req"
    using found find_Some_prop [of "\<lambda>q. prj_ID q = ureq_ID req" "st_projects st" p]
    by (simp add: findProject_def)
  from body dec have req: "ureq_Name req = j_name obj" "ureq_Description req = j_description obj"
    "ureq_PhotoURL req = j_avatar obj" "ureq_ReportURL req = j_reportUrl obj"
    "ureq_ReportName req = j_reportName obj" "ureq_RepoURL req = j_repo obj"
    "ureq_ActiveTo req = (case j_dueDate obj of None \<Rightarrow> zeroTime | Some t \<Rightarrow> t)"
    by (auto simp: decode_UpdateProjectReq_def)
  note first = update_chain [OF dec found, where svc = svc and due = sparseDue and g = g]
  note reread = spec_UpdateProject_found(2) [OF found, of sparseDue]
  have second: "runChain
             [parseBodyToUpdatedProject
                (svc\<lparr>UpdateProject := spec_UpdateProject sparseDue,
                     GetParticipants := spec_GetParticipants\<rparr>),
              updateProject
                (svc\<lparr>UpdateProject := spec_UpdateProject sparseDue,
                     GetParticipants := spec_GetParticipants\<rparr>)]
             c (?g', ?st')
           = ([Reply 200
                 (ProjectPayload
                    \<lparr>pwp_ProjectResp = makeProjectResponse ?p',
                     pwp_Participants =
                       makeParticipantResponses
                         (filter (\<lambda>q. part_ProjectID q = prj_ID p) (st_participants st))\<rparr>)],
              (readBody c)\<lparr>Keys := (Keys c)(ProjectIDCtx \<mapsto> IntVal (ureq_ID req))\<rparr>, ?g', ?st')"
    using update_chain [OF dec reread, where svc = svc and g = ?g']
    by (simp add: patchProject_sparseDue_again patch_rows_again patchProject_ID)
  have f1: "case j_name obj of None \<Rightarrow> prj_Name ?p' = prj_Name p | Some v \<Rightarrow> prj_Name ?p' = v"
    by (simp add: patchProject_def req split: option.splits)
  have f2: "case j_description obj of None \<Rightarrow> prj_Description ?p' = prj_Description p
               | Some v \<Rightarrow> ns_String (prj_Description ?p') = v"
    by (simp add: patchProject_def req split: option.splits)
  have f3: "case j_avatar obj of None \<Rightarrow> prj_PhotoURL ?p' = prj_PhotoURL p
               | Some v \<Rightarrow> ns_String (prj_PhotoURL ?p') = v"
    by (simp add: patchProject_def req split: option.splits)
  have f4: "case j_reportUrl obj of None \<Rightarrow> prj_ReportURL ?p' = prj_ReportURL p
               | Some v \<Rightarrow> ns_String (prj_ReportURL ?p') = v"
    by (simp add: patchProject_def req split: option.splits)
  have f5: "case j_reportName obj of None \<Rightarrow> prj_ReportName ?p' = prj_ReportName p
               | Some v \<Rightarrow> ns_String (prj_ReportName ?p') = v"
    by (simp add: patchProject_def req split: option.splits)
  have f6: "case j_repo obj of None \<Rightarrow> prj_RepoURL ?p' = prj_RepoURL p
               | Some v \<Rightarrow> ns_String (prj_RepoURL ?p') = v"
    by (simp add: patchProject_def req split: option.splits)
  have f7: "case j_dueDate obj of None \<Rightarrow> prj_ActiveTo ?p' = prj_ActiveTo p
             | Some t \<Rightarrow> prj_ActiveTo ?p' = (if t = zeroTime then prj_ActiveTo p else t)"
    by (simp add: patchProject_def sparseDue_def req split: option.splits)
  have rr: "findProject ?st' (prj_ID p) = Some ?p'" using reread pid by simp
  show ?thesis
    using first second rr patchProject_ID [of sparseDue req p] f1 f2 f3 f4 f5 f6 f7 by blast
qed

theorem updateProject_is_sparse_patch_witness:
  "Body (sampleContext ''t1'' (JObject (emptyObject\<lparr>j_id := Some 1, j_name := Some ''renamed''\<rparr>)))
     = JObject (emptyObject\<lparr>j_id := Some 1, j_name := Some ''renamed''\<rparr>)
   \<and> decode_UpdateProjectReq
         (Body (sampleContext ''t1'' (JObject (emptyObject\<lparr>j_id := Some 1, j_name := Some ''renamed''\<rparr>))))
       = (zeroUpdateProjectReq\<lparr>ureq_ID := 1, ureq_Name := Some ''renamed''\<rparr>, None)
   \<and> findProject sampleStore 1 = Some (sampleProject 1 ''alpha'' 100)
   \<and> (\<exists>p' participants c' g' st'.
         runChain
           [parseBodyToUpdatedProject
              ((failingService (Err ''no database''))
                 \<lparr>UpdateProject := spec_UpdateProject sparseDue,
                  GetParticipants := spec_GetParticipants\<rparr>),
            updateProject
              ((failingService (Err ''no database''))
                 \<lparr>UpdateProject := spec_UpdateProject sparseDue,
                  GetParticipants := spec_GetParticipants\<rparr>)]
           (sampleContext ''t1'' (JObject (emptyObject\<lparr>j_id := Some 1, j_name := Some ''renamed''\<rparr>)))
           (initGlobals, sampleStore)
         = ([Reply 200
               (ProjectPayload
                  \<lparr>pwp_ProjectResp = makeProjectResponse p', pwp_Participants = participants\<rparr>)],
            c', g', st')
       \<and> findProject st' 1 = Some p'
       \<and> prj_Name p' = ''renamed''
       \<and> prj_Description p' = \<lparr>ns_String = ''about'', ns_Valid = True\<rparr>
       \<and> prj_ActiveTo p' = 100)"
proof -
  let ?obj = "emptyObject\<lparr>j_id := Some 1, j_name := Some ''renamed''\<rparr>"
  let ?c = "sampleContext ''t1'' (JObject ?obj)"
  let ?req = "zeroUpdateProjectReq\<lparr>ureq_ID := 1, ureq_Name := Some ''renamed''\<rparr>"
  let ?p = "sampleProject 1 ''alpha'' 100"
  have b: "Body ?c = JObject ?obj" by (simp add: sampleContext_def)
  have d: "decode_UpdateProjectReq (Body ?c) = (?req, None)"
    by (simp add: sampleContext_def decode_UpdateProjectReq_def emptyObject_def
          zeroUpdateProjectReq_def inInt64_def)
  have f: "findProject sampleStore 1 = Some ?p"
    by (simp add: findProject_def sampleStore_def sampleProject_def)
  have f': "findProject sampleStore (ureq_ID ?req) = Some ?p" using f by simp
  from updateProject_is_sparse_patch [OF b d f',
         where svc = "failingService (Err ''no database'')" and g = initGlobals]
  obtain p' participants c' g' st' where
    "runChain
           [parseBodyToUpdatedProject
              ((failingService (Err ''no database''))
                 \<lparr>UpdateProject := spec_UpdateProject sparseDue,
                  GetParticipants := spec_GetParticipants\<rparr>),
            updateProject
              ((failingService (Err ''no database''))
                 \<lparr>UpdateProject := spec_UpdateProject sparseDue,
                  GetParticipants := spec_GetParticipants\<rparr>)]
           ?c (initGlobals, sampleStore)
         = ([Reply 200
               (ProjectPayload
                  \<lparr>pwp_ProjectResp = makeProjectResponse p', pwp_Participants = participants\<rparr>)],
            c', g', st')"
    "findProject st' (prj_ID ?p) = Some p'"
    "case j_name ?obj of None \<Rightarrow> prj_Name p' = prj_Name ?p | Some v \<Rightarrow> prj_Name p' = v"
    "case j_description ?obj of None \<Rightarrow> prj_Description p' = prj_Description ?p
       | Some v \<Rightarrow> ns_String (prj_Description p') = v"
    "case j_dueDate ?obj of None \<Rightarrow> prj_ActiveTo p' = prj_ActiveTo ?p
       | Some t \<Rightarrow> prj_ActiveTo p' = (if t = zeroTime then prj_ActiveTo ?p else t)"
    by blast
  then have "runChain
           [parseBodyToUpdatedProject
              ((failingService (Err ''no database''))
                 \<lparr>UpdateProject := spec_UpdateProject sparseDue,
                  GetParticipants := spec_GetParticipants\<rparr>),
            updateProject
              ((failingService (Err ''no database''))
                 \<lparr>UpdateProject := spec_UpdateProject sparseDue,
                  GetParticipants := spec_GetParticipants\<rparr>)]
           ?c (initGlobals, sampleStore)
         = ([Reply 200
               (ProjectPayload
                  \<lparr>pwp_ProjectResp = makeProjectResponse p', pwp_Participants = participants\<rparr>)],
            c', g', st')
       \<and> findProject st' 1 = Some p'
       \<and> prj_Name p' = ''renamed''
       \<and> prj_Description p' = \<lparr>ns_String = ''about'', ns_Valid = True\<rparr>
       \<and> prj_ActiveTo p' = 100"
    by (simp add: emptyObject_def sampleProject_def)
  with b d f show ?thesis by blast
qed

section \<open>The package-level variables\<close>

lemma deleteProject_nil:
  "deletedProjectID (fst gs) = None \<Longrightarrow> deleteProject svc c gs = (Panic, c, gs)"
  by (cases gs) (simp add: deleteProject_def)

lemma parseBodyToDeletedProject_nil:
  "deletedProjectID (fst gs) = None \<Longrightarrow>
   \<exists>e. parseBodyToDeletedProject svc c gs = (Abort 400 (ErrorH e), readBody c, gs)"
  by (cases gs) (auto simp: parseBodyToDeletedProject_def decode_int_ptr_def split: body.splits)

lemma authMiddleware_globals: "fst (snd (snd (authMiddleware svc toAllow c gs))) = fst gs"
  by (cases gs) (auto simp: authMiddleware_def split: prod.splits option.splits sum.splits)

lemma createProject_globals: "fst (snd (snd (createProject svc c gs))) = fst gs"
  by (cases gs)
    (auto simp: createProject_def split: prod.splits option.splits sum.splits ctxval.splits)

lemma getProjects_globals: "fst (snd (snd (getProjects svc c gs))) = fst gs"
  by (cases gs) (auto simp: getProjects_def split: prod.splits sum.splits)

lemma updateProject_globals: "fst (snd (snd (updateProject svc c gs))) = fst gs"
  by (cases gs) (auto simp: updateProject_def split: prod.splits sum.splits)

lemma deleteProject_globals: "fst (snd (snd (deleteProject svc c gs))) = fst gs"
  by (cases gs) (auto simp: deleteProject_def split: prod.splits option.splits)

lemma getProjectInfo_globals: "fst (snd (snd (getProjectInfo svc c gs))) = fst gs"
  by (cases gs)
    (auto simp: getProjectInfo_def sendProjectInfoResponse_def split: prod.splits sum.splits)

lemma getProjectCommits_globals: "fst (snd (snd (getProjectCommits hours svc c gs))) = fst gs"
  by (cases gs) (auto simp: getProjectCommits_def split: prod.splits sum.splits)

lemma parseBodyToUpdatedProject_globals:
  "deletedProjectID (fst (snd (snd (parseBodyToUpdatedProject svc c gs)))) = deletedProjectID (fst gs)"
  by (cases gs) (auto simp: parseBodyToUpdatedProject_def split: prod.splits option.splits)

lemma parseBodyToDeletedProject_globals:
  "deletedProjectID (fst gs) = None \<Longrightarrow>
   deletedProjectID (fst (snd (snd (parseBodyToDeletedProject svc c gs)))) = None"
  using parseBodyToDeletedProject_nil [of gs svc c] by auto

lemma stepHandler_keeps_nil:
  assumes frame: "\<forall>stp c gs. deletedProjectID (fst (snd (snd (ext stp c gs)))) = deletedProjectID (fst gs)"
    and nil: "deletedProjectID (fst gs) = None"
  shows "deletedProjectID (fst (snd (snd (stepHandler hours svc ext stp c gs)))) = None"
proof -
  have extf: "\<And>st. deletedProjectID (fst (snd (snd (ext st c gs)))) = None"
  proof -
    fix st
    from frame have "deletedProjectID (fst (snd (snd (ext st c gs)))) = deletedProjectID (fst gs)"
      by blast
    with nil show "deletedProjectID (fst (snd (snd (ext st c gs)))) = None" by simp
  qed
  show ?thesis
  proof (cases stp)
    case (Handler name)
    then show ?thesis
      using nil
      by (simp add: stepHandler_def createProject_globals getProjects_globals updateProject_globals
            deleteProject_globals getProjectInfo_globals getProjectCommits_globals
            parseBodyToUpdatedProject_globals parseBodyToDeletedProject_globals extf)
  qed (simp_all add: stepHandler_def extf)
qed

lemma invoke_keeps_nil:
  assumes frame: "\<forall>stp c gs. deletedProjectID (fst (snd (snd (ext stp c gs)))) = deletedProjectID (fst gs)"
    and nil: "deletedProjectID (fst gs) = None"
  shows "deletedProjectID (fst (invoke hours svc ext calls gs)) = None"
  using nil
proof (induction calls arbitrary: gs)
  case Nil
  then show ?case by simp
next
  case (Cons call calls)
  from stepHandler_keeps_nil [OF frame Cons.prems]
  have "deletedProjectID (fst (snd (snd (stepHandler hours svc ext (fst call) (snd call) gs)))) = None" .
  from Cons.IH [OF this] show ?case by simp
qed

lemma runChain_last_cong:
  assumes same: "\<And>c gs. P gs \<Longrightarrow> h c gs = h' c gs"
    and keep: "\<And>m c gs. m \<in> set ms \<Longrightarrow> P gs \<Longrightarrow> P (snd (snd (m c gs)))"
    and start: "P gs"
  shows "runChain (ms @ [h]) c gs = runChain (ms @ [h']) c gs"
  using keep start
proof (induction ms arbitrary: c gs)
  case Nil
  then show ?case using same by simp
next
  case (Cons m ms)
  obtain r c1 gs1 where step: "m c gs = (r, c1, gs1)" by (cases "m c gs") auto
  have "P (snd (snd (m c gs)))" using Cons.prems by simp
  with step have p1: "P gs1" by simp
  have ih: "\<And>c. runChain (ms @ [h]) c gs1 = runChain (ms @ [h']) c gs1"
    using Cons.IH [OF _ p1] Cons.prems(1) by simp
  show ?case using step ih by (cases r) simp_all
qed

text \<open>
  Claim C10.  The route \<^verbatim>\<open>DELETE /api/project/:project_id\<close> runs the two middleware and
  \<^verbatim>\<open>deleteProject\<close>; \<^verbatim>\<open>parseBodyToDeletedProject\<close> is on no route.  Whatever handlers have
  run before, for whatever requests, the package-level pointer \<^verbatim>\<open>deletedProjectID\<close> is
  still \<^verbatim>\<open>nil\<close>, provided that the handlers and middleware outside \<^verbatim>\<open>project.go\<close> do not
  assign it: \<^verbatim>\<open>parseBodyToDeletedProject\<close> itself only fails on it.  So on this route
  \<^verbatim>\<open>deleteProject\<close> panics at the dereference and \<^verbatim>\<open>DeleteProject\<close> is not called: the route
  behaves as if its handler were a bare panic.
\<close>

theorem deleteProject_route_dereferences_nil:
  assumes frame: "\<forall>stp c gs. deletedProjectID (fst (snd (snd (ext stp c gs)))) = deletedProjectID (fst gs)"
  shows "(''DELETE'', ''/api/project/:project_id'',
            [AuthMiddleware [Admin, ProjectManager, Student],
             VerifyParticipantRoleMiddleware [RoleOwner], Handler ''deleteProject'']) \<in> set routes
       \<and> (\<forall>route \<in> set routes. Handler ''parseBodyToDeletedProject'' \<notin> set (snd (snd route)))
       \<and> deletedProjectID (fst (invoke hours svc ext calls (initGlobals, s0))) = None
       \<and> (\<exists>e. parseBodyToDeletedProject svc c (invoke hours svc ext calls (initGlobals, s0))
                 = (Abort 400 (ErrorH e), readBody c, invoke hours svc ext calls (initGlobals, s0)))
       \<and> deleteProject svc c (invoke hours svc ext calls (initGlobals, s0))
           = (Panic, c, invoke hours svc ext calls (initGlobals, s0))
       \<and> runRoute hours svc ext
            [AuthMiddleware [Admin, ProjectManager, Student],
             VerifyParticipantRoleMiddleware [RoleOwner], Handler ''deleteProject'']
            c (invoke hours svc ext calls (initGlobals, s0))
           = runChain
               [ext (AuthMiddleware [Admin, ProjectManager, Student]),
                ext (VerifyParticipantRoleMiddleware [RoleOwner]),
                (\<lambda>c gs. (Panic, c, gs))]
               c (invoke hours svc ext calls (initGlobals, s0))"
proof -
  let ?gs = "invoke hours svc ext calls (initGlobals, s0)"
  have a: "(''DELETE'', ''/api/project/:project_id'',
            [AuthMiddleware [Admin, ProjectManager, Student],
             VerifyParticipantRoleMiddleware [RoleOwner], Handler ''deleteProject'']) \<in> set routes"
    by (simp add: routes_def)
  have b: "\<forall>route \<in> set routes. Handler ''parseBodyToDeletedProject'' \<notin> set (snd (snd route))"
    by (simp add: routes_def)
  have nil: "deletedProjectID (fst ?gs) = None"
    by (rule invoke_keeps_nil [OF frame]) (simp add: initGlobals_def)
  note c = parseBodyToDeletedProject_nil [OF nil, of svc c]
  note d = deleteProject_nil [OF nil, of svc c]
  have "runChain ([ext (AuthMiddleware [Admin, ProjectManager, Student]),
                   ext (VerifyParticipantRoleMiddleware [RoleOwner])] @ [deleteProject svc]) c ?gs
        = runChain ([ext (AuthMiddleware [Admin, ProjectManager, Student]),
                   ext (VerifyParticipantRoleMiddleware [RoleOwner])] @ [\<lambda>c gs. (Panic, c, gs)]) c ?gs"
  proof (rule runChain_last_cong [where P = "\<lambda>gs. deletedProjectID (fst gs) = None"])
    show "\<And>c gs. deletedProjectID (fst gs) = None \<Longrightarrow> deleteProject svc c gs = (Panic, c, gs)"
      by (rule deleteProject_nil)
    show "\<And>m c gs. m \<in> set [ext (AuthMiddleware [Admin, ProjectManager, Student]),
                   ext (VerifyParticipantRoleMiddleware [RoleOwner])] \<Longrightarrow>
            deletedProjectID (fst gs) = None \<Longrightarrow> deletedProjectID (fst (snd (snd (m c gs)))) = None"
      using frame by auto
    show "deletedProjectID (fst ?gs) = None" by (rule nil)
  qed
  then have e: "runRoute hours svc ext
            [AuthMiddleware [Admin, ProjectManager, Student],
             VerifyParticipantRoleMiddleware [RoleOwner], Handler ''deleteProject'']
            c ?gs
           = runChain
               [ext (AuthMiddleware [Admin, ProjectManager, Student]),
                ext (VerifyParticipantRoleMiddleware [RoleOwner]),
                (\<lambda>c gs. (Panic, c, gs))]
               c ?gs"
    by (simp add: runRoute_def stepHandler_def)
  from a b nil c d e show ?thesis by blast
qed

theorem deleteProject_route_dereferences_nil_witness:
  "(\<forall>stp c gs. deletedProjectID
       (fst (snd (snd (specMiddleware (specService (\<lambda>new old. new)) (\<lambda>stp c gs. (Silent, c, gs))
                         stp c gs))))
     = deletedProjectID (fst gs))
   \<and> runRoute (\<lambda>a b. 0) (specService (\<lambda>new old. new))
        (specMiddleware (specService (\<lambda>new old. new)) (\<lambda>stp c gs. (Silent, c, gs)))
        [AuthMiddleware [Admin, ProjectManager, Student],
         VerifyParticipantRoleMiddleware [RoleOwner], Handler ''deleteProject'']
        (sampleContext ''t1'' (JNumber 1))
        (invoke (\<lambda>a b. 0) (specService (\<lambda>new old. new))
           (specMiddleware (specService (\<lambda>new old. new)) (\<lambda>stp c gs. (Silent, c, gs)))
           [(Handler ''parseBodyToDeletedProject'', sampleContext ''t1'' (JNumber 1))]
           (initGlobals, sampleStore))
      = ([Panic], (sampleContext ''t1'' (JNumber 1))\<lparr>Keys := [UserIDCtx \<mapsto> UUIDVal 1]\<rparr>,
         initGlobals, sampleStore)"
proof -
  let ?svc = "specService (\<lambda>new old. new)"
  let ?ext = "specMiddleware ?svc (\<lambda>stp c gs. (Silent, c, gs))"
  let ?c = "sampleContext ''t1'' (JNumber 1)"
  have frame: "\<forall>stp c gs. deletedProjectID (fst (snd (snd (?ext stp c gs)))) = deletedProjectID (fst gs)"
    by (simp add: specMiddleware_def authMiddleware_globals split: step.splits)
  have inv: "invoke (\<lambda>a b. 0) ?svc ?ext [(Handler ''parseBodyToDeletedProject'', ?c)]
               (initGlobals, sampleStore) = (initGlobals, sampleStore)"
    by (simp add: stepHandler_def parseBodyToDeletedProject_def decode_int_ptr_def
          sampleContext_def initGlobals_def)
  have auth: "?ext (AuthMiddleware [Admin, ProjectManager, Student]) ?c (initGlobals, sampleStore)
                = (Silent, ?c\<lparr>Keys := [UserIDCtx \<mapsto> UUIDVal 1]\<rparr>, initGlobals, sampleStore)"
    by (simp add: specMiddleware_def authMiddleware_def specService_def failingService_def
          spec_VerifyToken_def spec_GetUserIDFromToken_def findUser_def sampleStore_def
          sampleContext_def sampleUser_def ProjectManager_def Admin_def)
  have verify: "?ext (VerifyParticipantRoleMiddleware [RoleOwner]) = (\<lambda>c gs. (Silent, c, gs))"
    by (simp add: specMiddleware_def)
  from deleteProject_route_dereferences_nil [OF frame, of "\<lambda>a b. 0" ?svc
         "[(Handler ''parseBodyToDeletedProject'', ?c)]" sampleStore ?c]
  have "runRoute (\<lambda>a b. 0) ?svc ?ext
        [AuthMiddleware [Admin, ProjectManager, Student],
         VerifyParticipantRoleMiddleware [RoleOwner], Handler ''deleteProject'']
        ?c (invoke (\<lambda>a b. 0) ?svc ?ext [(Handler ''parseBodyToDeletedProject'', ?c)]
           (initGlobals, sampleStore))
      = runChain [?ext (AuthMiddleware [Admin, ProjectManager, Student]),
                  ?ext (VerifyParticipantRoleMiddleware [RoleOwner]),
                  (\<lambda>c gs. (Panic, c, gs))]
          ?c (invoke (\<lambda>a b. 0) ?svc ?ext [(Handler ''parseBodyToDeletedProject'', ?c)]
           (initGlobals, sampleStore))"
    by blast
  also have "\<dots> = ([Panic], ?c\<lparr>Keys := [UserIDCtx \<mapsto> UUIDVal 1]\<rparr>, initGlobals, sampleStore)"
    unfolding inv verify by (simp add: auth)
  finally show ?thesis using frame by blast
qed

text \<open>
  Claim C4.  The response of \<^verbatim>\<open>updateProject\<close> is not a function of its request alone.
  The handler takes the update from the package-level variable \<^verbatim>\<open>updatedProject\<close>, which
  \<^verbatim>\<open>parseBodyToUpdatedProject\<close> overwrites for every request.  Here the request of the
  first user renames project 1; when the body of another request (for project 2) is
  parsed in between, the first request is answered with the update of project 2.
\<close>

theorem updateProject_answers_with_another_request:
  "fst (updateProject (specService (\<lambda>new old. new))
          (sampleContext ''t1'' (JObject (emptyObject\<lparr>j_id := Some 1, j_name := Some ''renamed''\<rparr>)))
          (invoke (\<lambda>a b. 0) (specService (\<lambda>new old. new)) (\<lambda>stp c gs. (Silent, c, gs))
             [(Handler ''parseBodyToUpdatedProject'',
               sampleContext ''t1'' (JObject (emptyObject\<lparr>j_id := Some 1, j_name := Some ''renamed''\<rparr>)))]
             (initGlobals, sampleStore)))
     = Reply 200 (ProjectPayload
         \<lparr>pwp_ProjectResp = makeProjectResponse (sampleProject 1 ''renamed'' zeroTime),
          pwp_Participants = []\<rparr>)
   \<and> fst (updateProject (specService (\<lambda>new old. new))
          (sampleContext ''t1'' (JObject (emptyObject\<lparr>j_id := Some 1, j_name := Some ''renamed''\<rparr>)))
          (invoke (\<lambda>a b. 0) (specService (\<lambda>new old. new)) (\<lambda>stp c gs. (Silent, c, gs))
             [(Handler ''parseBodyToUpdatedProject'',
               sampleContext ''t1'' (JObject (emptyObject\<lparr>j_id := Some 1, j_name := Some ''renamed''\<rparr>))),
              (Handler ''parseBodyToUpdatedProject'',
               sampleContext ''t3'' (JObject (emptyObject\<lparr>j_id := Some 2, j_name := Some ''hijacked''\<rparr>)))]
             (initGlobals, sampleStore)))
     = Reply 200 (ProjectPayload
         \<lparr>pwp_ProjectResp = makeProjectResponse (sampleProject 2 ''hijacked'' zeroTime),
          pwp_Participants = []\<rparr>)"
  by (simp add: stepHandler_def parseBodyToUpdatedProject_def decode_UpdateProjectReq_def inInt64_def
        updateProject_def specService_def failingService_def spec_UpdateProject_def
        spec_GetParticipants_def findProject_def patchProject_def makeProjectResponse_def
        makeParticipantResponses_def
        sampleContext_def emptyObject_def initGlobals_def sampleStore_def sampleProject_def
        readBody_def)

end
